theory Spec2Isabelle
  imports Main "HOL-Library.Char_ord" "HOL-Library.List_Lexorder"
begin

section \<open>Go string helpers (package strings), on byte strings\<close>

text \<open>
  A Go string is a byte sequence; it is modelled as \<^typ>\<open>string\<close>, one character for one byte. The
  helpers below follow the documented behaviour of package \<^verbatim>\<open>strings\<close>. Searching, cutting and
  prefix tests work on bytes. \<^verbatim>\<open>TrimSpace\<close> and \<^verbatim>\<open>Fields\<close> work on the code points of the UTF-8
  text, and so does \<^verbatim>\<open>ToLower\<close>; they are modelled on the bytes of the code points concerned.
\<close>

fun strings_HasPrefix :: "string \<Rightarrow> string \<Rightarrow> bool" where
  "strings_HasPrefix s [] = True"
| "strings_HasPrefix [] (p # ps) = False"
| "strings_HasPrefix (c # cs) (p # ps) = (c = p \<and> strings_HasPrefix cs ps)"

fun strings_Contains :: "string \<Rightarrow> string \<Rightarrow> bool" where
  "strings_Contains [] sub = (sub = [])"
| "strings_Contains (c # cs) sub = (strings_HasPrefix (c # cs) sub \<or> strings_Contains cs sub)"

text \<open>\<^verbatim>\<open>strings.Index\<close>: the position of the first occurrence, \<open>None\<close> for Go's \<open>-1\<close>.\<close>

fun strings_Index :: "string \<Rightarrow> string \<Rightarrow> nat option" where
  "strings_Index [] sub = (if sub = [] then Some 0 else None)"
| "strings_Index (c # cs) sub =
     (if strings_HasPrefix (c # cs) sub then Some 0
      else map_option Suc (strings_Index cs sub))"

text \<open>\<^verbatim>\<open>strings.LastIndex\<close>: the position of the last occurrence.\<close>

fun strings_LastIndex :: "string \<Rightarrow> string \<Rightarrow> nat option" where
  "strings_LastIndex [] sub = (if sub = [] then Some 0 else None)"
| "strings_LastIndex (c # cs) sub =
     (case strings_LastIndex cs sub of
        Some i \<Rightarrow> Some (Suc i)
      | None \<Rightarrow> (if strings_HasPrefix (c # cs) sub then Some 0 else None))"

definition strings_TrimPrefix :: "string \<Rightarrow> string \<Rightarrow> string" where
  "strings_TrimPrefix s p = (if strings_HasPrefix s p then drop (length p) s else s)"

text \<open>
  White space is what \<^verbatim>\<open>unicode.IsSpace\<close> accepts: tab, line feed, vertical tab, form feed,
  carriage return, space, U+0085, U+00A0, U+1680, U+2000 to U+200A, U+2028, U+2029, U+202F,
  U+205F and U+3000. \<open>spaceRunes\<close> lists their UTF-8 encodings.
\<close>

definition spaceRunes :: "string list" where
  "spaceRunes =
     [[CHR 0x09], [CHR 0x0A], [CHR 0x0B], [CHR 0x0C], [CHR 0x0D], [CHR 0x20],
      [CHR 0xC2, CHR 0x85], [CHR 0xC2, CHR 0xA0],
      [CHR 0xE1, CHR 0x9A, CHR 0x80],
      [CHR 0xE2, CHR 0x80, CHR 0x80], [CHR 0xE2, CHR 0x80, CHR 0x81],
      [CHR 0xE2, CHR 0x80, CHR 0x82], [CHR 0xE2, CHR 0x80, CHR 0x83],
      [CHR 0xE2, CHR 0x80, CHR 0x84], [CHR 0xE2, CHR 0x80, CHR 0x85],
      [CHR 0xE2, CHR 0x80, CHR 0x86], [CHR 0xE2, CHR 0x80, CHR 0x87],
      [CHR 0xE2, CHR 0x80, CHR 0x88], [CHR 0xE2, CHR 0x80, CHR 0x89],
      [CHR 0xE2, CHR 0x80, CHR 0x8A],
      [CHR 0xE2, CHR 0x80, CHR 0xA8], [CHR 0xE2, CHR 0x80, CHR 0xA9],
      [CHR 0xE2, CHR 0x80, CHR 0xAF], [CHR 0xE2, CHR 0x81, CHR 0x9F],
      [CHR 0xE3, CHR 0x80, CHR 0x80]]"

text \<open>
  The number of bytes of the white-space code point a string starts with, and of the one it ends
  with; \<open>0\<close> when there is none. A string starts with a white-space code point exactly when it
  starts with the bytes of one: any other valid sequence is another code point, and an invalid
  byte decodes to U+FFFD of width one. Decoding backwards (\<^verbatim>\<open>utf8.DecodeLastRuneInString\<close>) looks
  for the nearest byte that can start a code point, which is the first byte of the encoding.
\<close>

definition spaceWidth :: "string \<Rightarrow> nat" where
  "spaceWidth s =
     (case find (\<lambda>r. strings_HasPrefix s r) spaceRunes of None \<Rightarrow> 0 | Some r \<Rightarrow> length r)"

definition spaceWidthLast :: "string \<Rightarrow> nat" where
  "spaceWidthLast s =
     (case find (\<lambda>r. strings_HasPrefix (rev s) (rev r)) spaceRunes of
        None \<Rightarrow> 0
      | Some r \<Rightarrow> length r)"

text \<open>\<^verbatim>\<open>strings.TrimLeftFunc(s, unicode.IsSpace)\<close> and \<^verbatim>\<open>strings.TrimRightFunc(s, unicode.IsSpace)\<close>.\<close>

function trimLeft :: "string \<Rightarrow> string" where
  "trimLeft s = (if spaceWidth s = 0 then s else trimLeft (drop (spaceWidth s) s))"
  by pat_completeness auto
termination
proof (relation "measure length")
  show "wf (measure length)" by simp
next
  fix s :: string
  assume "spaceWidth s \<noteq> 0"
  then have "s \<noteq> []" by (auto simp: spaceWidth_def spaceRunes_def)
  with \<open>spaceWidth s \<noteq> 0\<close> show "(drop (spaceWidth s) s, s) \<in> measure length" by simp
qed

function trimRight :: "string \<Rightarrow> string" where
  "trimRight s =
     (if spaceWidthLast s = 0 then s else trimRight (take (length s - spaceWidthLast s) s))"
  by pat_completeness auto
termination
proof (relation "measure length")
  show "wf (measure length)" by simp
next
  fix s :: string
  assume "spaceWidthLast s \<noteq> 0"
  then have "s \<noteq> []" by (auto simp: spaceWidthLast_def spaceRunes_def)
  with \<open>spaceWidthLast s \<noteq> 0\<close>
  show "(take (length s - spaceWidthLast s) s, s) \<in> measure length" by simp
qed

declare trimLeft.simps [simp del] trimRight.simps [simp del]

text \<open>
  \<^verbatim>\<open>strings.TrimSpace\<close>: the white space at both ends is cut off. (The library first skips ASCII
  white space byte by byte and hands the rest to the two functions above; the result is the
  same.)
\<close>

definition strings_TrimSpace :: "string \<Rightarrow> string" where
  "strings_TrimSpace s = trimRight (trimLeft s)"

text \<open>\<^verbatim>\<open>strings.Split(s, sep)\<close> for the one-byte separators the program uses.\<close>

fun strings_Split :: "string \<Rightarrow> char \<Rightarrow> string list" where
  "strings_Split [] sep = [[]]"
| "strings_Split (c # cs) sep =
     (if c = sep then [] # strings_Split cs sep
      else (case strings_Split cs sep of
              [] \<Rightarrow> [[c]]
            | p # ps \<Rightarrow> (c # p) # ps))"

text \<open>\<^verbatim>\<open>strings.SplitN(s, sep, 2)\<close> for a one-byte separator: cut at the first occurrence.\<close>

definition strings_SplitN2 :: "string \<Rightarrow> char \<Rightarrow> string list" where
  "strings_SplitN2 s sep =
     (if sep \<in> set s
      then [takeWhile (\<lambda>c. c \<noteq> sep) s, tl (dropWhile (\<lambda>c. c \<noteq> sep) s)]
      else [s])"

text \<open>
  \<^verbatim>\<open>strings.Fields\<close>: the maximal runs of code points that are not white space. The scan goes
  byte by byte: a white-space code point starts with an ASCII byte or a leading byte, neither of
  which occurs inside another code point, so every one of them is met at its first byte.
\<close>

function fields_go :: "string \<Rightarrow> string \<Rightarrow> string list" where
  "fields_go cur s =
     (if s = [] then (if cur = [] then [] else [rev cur])
      else if spaceWidth s = 0 then fields_go (hd s # cur) (tl s)
      else if cur = [] then fields_go [] (drop (spaceWidth s) s)
      else rev cur # fields_go [] (drop (spaceWidth s) s))"
  by pat_completeness auto
termination
  by (relation "measure (\<lambda>(cur, s). length s)") auto

declare fields_go.simps [simp del]

definition strings_Fields :: "string \<Rightarrow> string list" where
  "strings_Fields s = fields_go [] s"

text \<open>
  \<^verbatim>\<open>strings.Contains(strings.ToLower(s), sub)\<close> for a pattern \<open>sub\<close> of ASCII bytes that are not
  capitals. \<^verbatim>\<open>ToLower\<close> maps every code point with \<^verbatim>\<open>unicode.ToLower\<close>; the code points it maps to
  an ASCII byte \<open>c\<close> are \<open>c\<close> itself, the capital of \<open>c\<close> when \<open>c\<close> is a small letter, U+0130 for
  \<^verbatim>\<open>i\<close> and U+212A for \<^verbatim>\<open>k\<close>. \<open>lowersTo c\<close> lists their UTF-8 encodings, and the pattern occurs in
  the lowered text exactly when the string holds, one after the other, an encoding for each of
  its bytes.
\<close>

definition lowersTo :: "char \<Rightarrow> string list" where
  "lowersTo c =
     [c] #
     (if (97::nat) \<le> of_char c \<and> of_char c \<le> (122::nat)
      then [[char_of (of_char c - (32::nat))]] else []) @
     (if c = CHR ''i'' then [[CHR 0xC4, CHR 0xB0]] else []) @
     (if c = CHR ''k'' then [[CHR 0xE2, CHR 0x84, CHR 0xAA]] else [])"

fun lowerHasPrefix :: "string \<Rightarrow> string \<Rightarrow> bool" where
  "lowerHasPrefix s [] = True"
| "lowerHasPrefix s (c # cs) =
     list_ex (\<lambda>r. strings_HasPrefix s r \<and> lowerHasPrefix (drop (length r) s) cs) (lowersTo c)"

fun lowerContains :: "string \<Rightarrow> string \<Rightarrow> bool" where
  "lowerContains [] sub = (sub = [])"
| "lowerContains (c # cs) sub = (lowerHasPrefix (c # cs) sub \<or> lowerContains cs sub)"

definition isDigit :: "char \<Rightarrow> bool" where
  "isDigit c = ((48::nat) \<le> of_char c \<and> of_char c \<le> (57::nat))"

section \<open>External commands\<close>

text \<open>
  Every \<^verbatim>\<open>exec.Command\<close> the program runs is a value of \<open>command\<close>. The outside world is an
  oracle: given the commands run so far and the next command, it answers with the bytes the
  command printed, whether it exited without error, and whether its context deadline passed.
  The functions of the program thread the list of commands run so far.
\<close>

datatype capture = Output | CombinedOutput | Run

record command =
  cmd_name :: string
  cmd_args :: "string list"
  cmd_dir :: string
  cmd_capture :: capture
  cmd_timeout_sec :: "nat option"

record cmd_result =
  res_out :: string
  res_err :: "string option"
  res_deadline :: bool

definition res_ok :: "cmd_result \<Rightarrow> bool" where
  "res_ok r = (res_err r = None)"

text \<open>
  A \<^verbatim>\<open>time.Time\<close>: the instant, in nanoseconds from the zero \<^verbatim>\<open>time.Time\<close>; the offset of its
  location from UTC at that instant, in seconds; and the reading of the monotonic clock that
  \<^verbatim>\<open>time.Now\<close> attaches. The name and the identity of the location are not modelled.
\<close>

record Time =
  instant :: int
  zoneOffset :: int
  monotonic :: "int option"

definition zeroTime :: Time where
  "zeroTime = \<lparr>instant = 0, zoneOffset = 0, monotonic = None\<rparr>"

record env =
  exec :: "command list \<Rightarrow> command \<Rightarrow> cmd_result"
  clock :: "command list \<Rightarrow> Time"
  parseLabels :: "string \<Rightarrow> (string \<rightharpoonup> string) option"

definition mkcmd :: "string \<Rightarrow> string list \<Rightarrow> string \<Rightarrow> capture \<Rightarrow> command" where
  "mkcmd name args dir cap =
     \<lparr>cmd_name = name, cmd_args = args, cmd_dir = dir, cmd_capture = cap, cmd_timeout_sec = None\<rparr>"

definition runcmd :: "env \<Rightarrow> command list \<Rightarrow> command \<Rightarrow> cmd_result \<times> command list" where
  "runcmd e log c = (exec e log c, log @ [c])"

section \<open>The version resolver\<close>

definition genericTags :: "string list" where
  "genericTags = [''latest'', ''stable'', ''edge'', ''main'', ''master'']"

text \<open>The inner loop of \<^verbatim>\<open>getRealVersion\<close> over the fields of one line.\<close>

fun scanFields :: "string list \<Rightarrow> string option" where
  "scanFields [] = None"
| "scanFields (f # fs) =
     (let field = strings_TrimPrefix (strings_TrimPrefix f ''v'') ''V''
      in if strings_Contains field ''.'' \<and> length field > 0 \<and>
            (case field of [] \<Rightarrow> False | c # _ \<Rightarrow> isDigit c)
         then Some field
         else scanFields fs)"

text \<open>The \<^verbatim>\<open>version:\<close> test on one (trimmed) line: \<open>Some v\<close> when the function returns \<open>v\<close> there.\<close>

definition labelledVersion :: "string \<Rightarrow> string option" where
  "labelledVersion line =
     (if lowerContains line ''version:''
      then (case strings_SplitN2 line (CHR '':'') of
              [p0, p1] \<Rightarrow> (let version = strings_TrimSpace p1
                            in if version \<noteq> [] then Some version else None)
            | _ \<Rightarrow> None)
      else None)"

text \<open>One iteration of the loop over the lines: the label test, then the fields of the same line.\<close>

definition scanLine :: "string \<Rightarrow> string option" where
  "scanLine line0 =
     (let line = strings_TrimSpace line0
      in case labelledVersion line of
           Some v \<Rightarrow> Some v
         | None \<Rightarrow> scanFields (strings_Fields line))"

fun scanLines :: "string list \<Rightarrow> string option" where
  "scanLines [] = None"
| "scanLines (l # ls) = (case scanLine l of Some v \<Rightarrow> Some v | None \<Rightarrow> scanLines ls)"

text \<open>The lines the probe inspects: \<^verbatim>\<open>lines[:min(3, len(lines))]\<close>.\<close>

definition inspectedLines :: "string \<Rightarrow> string list" where
  "inspectedLines output =
     (let lines = strings_Split (strings_TrimSpace output) (CHR 0x0A)
      in take (min 3 (length lines)) lines)"

definition versionCmd :: "string \<Rightarrow> command" where
  "versionCmd imageName =
     \<lparr>cmd_name = ''docker'', cmd_args = [''run'', ''--rm'', imageName, ''--version''],
      cmd_dir = [], cmd_capture = Output, cmd_timeout_sec = Some 5\<rparr>"

definition labelsCmd :: "string \<Rightarrow> command" where
  "labelsCmd imageName =
     mkcmd ''docker'' [''image'', ''inspect'', imageName, ''--format'', ''{{json .Config.Labels}}'']
       [] Output"

definition nonEmptyLabel :: "(string \<rightharpoonup> string) \<Rightarrow> string \<Rightarrow> string option" where
  "nonEmptyLabel labels key =
     (case labels key of
        Some version \<Rightarrow> (if version \<noteq> [] then Some version else None)
      | None \<Rightarrow> None)"

definition labelVersion :: "(string \<rightharpoonup> string) \<Rightarrow> string \<Rightarrow> string option" where
  "labelVersion labels tagVersion =
     (case (case nonEmptyLabel labels ''org.opencontainers.image.version'' of
              Some version \<Rightarrow> (if version \<noteq> tagVersion then Some version else None)
            | None \<Rightarrow> None) of
        Some version \<Rightarrow> Some version
      | None \<Rightarrow>
          (case nonEmptyLabel labels ''version'' of
             Some version \<Rightarrow> Some version
           | None \<Rightarrow> nonEmptyLabel labels ''VERSION''))"

text \<open>The first probe: the output of the version run, when the run succeeded.\<close>

definition probeVersion :: "cmd_result \<Rightarrow> string option" where
  "probeVersion r = (if res_ok r then scanLines (inspectedLines (res_out r)) else None)"

text \<open>The fallback: the labels of the image, when the inspection succeeded and its output parses.\<close>

definition labelFallback :: "env \<Rightarrow> cmd_result \<Rightarrow> string \<Rightarrow> string option" where
  "labelFallback e r tagVersion =
     (if res_ok r
      then (case parseLabels e (res_out r) of
              Some labels \<Rightarrow> labelVersion labels tagVersion
            | None \<Rightarrow> None)
      else None)"

definition getRealVersion ::
  "env \<Rightarrow> string \<Rightarrow> string \<Rightarrow> command list \<Rightarrow> string \<times> command list" where
  "getRealVersion e imageName tagVersion log =
     (if tagVersion \<notin> set genericTags then (tagVersion, log)
      else
        (let (r1, log1) = runcmd e log (versionCmd imageName) in
         (case probeVersion r1 of
            Some v \<Rightarrow> (v, log1)
          | None \<Rightarrow>
              (let (r2, log2) = runcmd e log1 (labelsCmd imageName) in
               (case labelFallback e r2 tagVersion of
                  Some v \<Rightarrow> (v, log2)
                | None \<Rightarrow> (tagVersion, log2))))))"

section \<open>Projects\<close>

text \<open>
  A nil map and an empty map behave alike in the program (a nil \<^verbatim>\<open>ImageInfo\<close> is replaced by an
  empty map before any write), as do a nil slice and an empty slice; the model has one map and
  one list for both. \<^verbatim>\<open>RunningContainers\<close> is a Go \<^verbatim>\<open>int\<close>, here an integer; the program sets it
  to the length of a list or to zero. The field \<^verbatim>\<open>Name\<close> of \<^verbatim>\<open>ImageInfo\<close> is \<open>ImageName\<close> here, and
  the field \<^verbatim>\<open>ImageInfo\<close> of \<^verbatim>\<open>Project\<close> is \<open>ImageInfoMap\<close>, since a record field is a constant of
  its own.
\<close>

record ImageInfo =
  ImageName :: string
  CurrentVersion :: string
  LatestVersion :: string
  HasUpdate :: bool

record Project =
  Name :: string
  Path :: string
  ComposeFile :: string
  Status :: string
  RunningContainers :: int
  Images :: "string list"
  ImageInfoMap :: "string \<rightharpoonup> ImageInfo"
  HasUpdates :: bool
  LastUpdated :: Time

type_synonym error = string


text \<open>\<^verbatim>\<open>%d\<close> of a non-negative number.\<close>

definition digitChar :: "nat \<Rightarrow> char" where
  "digitChar d = char_of (48 + d)"

function decimal :: "nat \<Rightarrow> string" where
  "decimal n = (if n < 10 then [digitChar n] else decimal (n div 10) @ [digitChar (n mod 10)])"
  by pat_completeness auto
termination
  by (relation "measure id") auto

definition composeCmd :: "string list \<Rightarrow> string \<Rightarrow> capture \<Rightarrow> command" where
  "composeCmd args dir cap = mkcmd ''docker'' (''compose'' # args) dir cap"

definition legacyCmd :: "string list \<Rightarrow> string \<Rightarrow> capture \<Rightarrow> command" where
  "legacyCmd args dir cap = mkcmd ''docker-compose'' args dir cap"

text \<open>
  The pattern of every compose call: the \<^verbatim>\<open>docker compose\<close> client first, the standalone
  \<^verbatim>\<open>docker-compose\<close> client when the first fails. The result is that of the last command run.
\<close>

definition withFallback ::
  "env \<Rightarrow> command list \<Rightarrow> string list \<Rightarrow> string \<Rightarrow> capture \<Rightarrow> cmd_result \<times> command list" where
  "withFallback e log args dir cap =
     (let (r1, log1) = runcmd e log (composeCmd args dir cap)
      in if res_err r1 \<noteq> None then runcmd e log1 (legacyCmd args dir cap) else (r1, log1))"

definition stopped :: "Project \<Rightarrow> Project" where
  "stopped p = p\<lparr>Status := ''stopped'', RunningContainers := 0\<rparr>"

definition UpdateStatus :: "env \<Rightarrow> Project \<Rightarrow> command list \<Rightarrow> error option \<times> Project \<times> command list" where
  "UpdateStatus e p log =
     (let (r, log1) = withFallback e log [''ps'', ''--quiet''] (Path p) Output
      in if res_err r \<noteq> None then (None, stopped p, log1)
         else
           (let lines = strings_Split (strings_TrimSpace (res_out r)) (CHR 0x0A)
            in if length lines = 1 \<and> lines ! 0 = [] then (None, stopped p, log1)
               else
                 (let (r2, log2) =
                        withFallback e log1 [''ps'', ''--services'', ''--filter'', ''status=running'']
                          (Path p) Output;
                      lines2 = strings_Split (strings_TrimSpace (res_out r2)) (CHR 0x0A);
                      running = (if length lines2 > 0 \<and> lines2 ! 0 \<noteq> [] then length lines2 else 0)
                  in (None,
                      p\<lparr>RunningContainers := int running,
                        Status := (if running > 0 then ''running:'' @ decimal running else ''stopped'')\<rparr>,
                      log2))))"

section \<open>Paths (package path/filepath, Unix)\<close>

definition joinSlash :: "string list \<Rightarrow> string" where
  "joinSlash xs = (case xs of [] \<Rightarrow> [] | y # ys \<Rightarrow> y @ concat (map (\<lambda>z. CHR ''/'' # z) ys))"

text \<open>One element of the path being cleaned; \<open>out\<close> holds the elements kept so far, last first.\<close>

definition cleanStep :: "bool \<Rightarrow> string \<Rightarrow> string list \<Rightarrow> string list" where
  "cleanStep rooted el out =
     (if el = [] \<or> el = ''.'' then out
      else if el = ''..'' then
        (case out of
           [] \<Rightarrow> (if rooted then [] else [''..''])
         | prev # rest \<Rightarrow> (if prev = ''..'' then ''..'' # out else rest))
      else el # out)"

definition filepath_Clean :: "string \<Rightarrow> string" where
  "filepath_Clean path =
     (if path = [] then ''.''
      else
        (let rooted = (hd path = CHR ''/'');
             out = fold (cleanStep rooted) (strings_Split path (CHR ''/'')) [];
             body = joinSlash (rev out)
         in if rooted then CHR ''/'' # body
            else if body = [] then ''.'' else body))"

definition filepath_Join :: "string \<Rightarrow> string \<Rightarrow> string" where
  "filepath_Join a b =
     (if a = [] then (if b = [] then [] else filepath_Clean b)
      else if b = [] then filepath_Clean a
      else filepath_Clean (a @ ''/'' @ b))"

definition filepath_Base :: "string \<Rightarrow> string" where
  "filepath_Base path =
     (if path = [] then ''.''
      else
        (let p = rev (dropWhile (\<lambda>c. c = CHR ''/'') (rev path));
             b = rev (takeWhile (\<lambda>c. c \<noteq> CHR ''/'') (rev p))
         in if b = [] then ''/'' else b))"

definition filepath_Dir :: "string \<Rightarrow> string" where
  "filepath_Dir path = filepath_Clean (rev (dropWhile (\<lambda>c. c \<noteq> CHR ''/'') (rev path)))"

text \<open>The elements of a cleaned path.\<close>

definition elements :: "string \<Rightarrow> string list" where
  "elements path = filter (\<lambda>el. el \<noteq> []) (strings_Split path (CHR ''/''))"

fun dropCommon :: "string list \<Rightarrow> string list \<Rightarrow> string list \<times> string list" where
  "dropCommon (b # bs) (t # ts) = (if b = t then dropCommon bs ts else (b # bs, t # ts))"
| "dropCommon bs ts = (bs, ts)"

text \<open>\<^verbatim>\<open>filepath.Rel\<close>; \<open>None\<close> is its error.\<close>

definition filepath_Rel :: "string \<Rightarrow> string \<Rightarrow> string option" where
  "filepath_Rel basepath targpath =
     (let base0 = filepath_Clean basepath;
          targ = filepath_Clean targpath
      in if targ = base0 then Some ''.''
         else
           (let base = (if base0 = ''.'' then [] else base0);
                baseSlashed = (length base > 0 \<and> hd base = CHR ''/'');
                targSlashed = (length targ > 0 \<and> hd targ = CHR ''/'')
            in if baseSlashed \<noteq> targSlashed then None
               else
                 (case dropCommon (elements base) (elements targ) of
                    (b # bs, t # ts) \<Rightarrow>
                      if b = ''..'' then None
                      else Some (joinSlash (replicate (length (b # bs)) ''..'' @ (t # ts)))
                  | (b # bs, []) \<Rightarrow> Some (joinSlash (replicate (length (b # bs)) ''..''))
                  | ([], ts) \<Rightarrow> Some (joinSlash ts))))"

section \<open>Walking the file tree (filepath.Walk)\<close>

text \<open>
  The directory tree under the search directory. \<open>NoStat\<close> is an entry whose \<^verbatim>\<open>Lstat\<close> fails,
  \<open>NoList\<close> a directory whose listing fails. The children of a directory are listed in the order
  \<^verbatim>\<open>readDirNames\<close> returns them (sorted by name). The name of the root node is the name
  \<^verbatim>\<open>Lstat\<close> reports for the search directory.
\<close>

datatype fsnode = File string | Dir string "fsnode list" | NoList string | NoStat string

fun nodeName :: "fsnode \<Rightarrow> string" where
  "nodeName (File n) = n"
| "nodeName (Dir n kids) = n"
| "nodeName (NoList n) = n"
| "nodeName (NoStat n) = n"

fun nodeIsDir :: "fsnode \<Rightarrow> bool" where
  "nodeIsDir (File n) = False"
| "nodeIsDir (Dir n kids) = True"
| "nodeIsDir (NoList n) = True"
| "nodeIsDir (NoStat n) = False"

datatype walkerr = SkipDir | WalkErr string

text \<open>\<^verbatim>\<open>os.FileInfo\<close>, as far as the program reads it.\<close>

record fileinfo =
  fi_IsDir :: bool
  fi_Name :: string

text \<open>
  A \<^verbatim>\<open>WalkFunc\<close> takes the path, the file info (\<open>None\<close> for nil), whether the error it is
  handed is non-nil, and the state the closure mutates.
\<close>

type_synonym 's walkfunc = "string \<Rightarrow> fileinfo option \<Rightarrow> bool \<Rightarrow> 's \<Rightarrow> walkerr option \<times> 's"

definition infoOf :: "fsnode \<Rightarrow> fileinfo option" where
  "infoOf n = Some \<lparr>fi_IsDir = nodeIsDir n, fi_Name = nodeName n\<rparr>"

fun walk :: "'s walkfunc \<Rightarrow> string \<Rightarrow> fsnode \<Rightarrow> 's \<Rightarrow> walkerr option \<times> 's"
  and walkNames :: "'s walkfunc \<Rightarrow> string \<Rightarrow> fsnode list \<Rightarrow> 's \<Rightarrow> walkerr option \<times> 's" where
  "walk fn path (File n) s = fn path (infoOf (File n)) False s"
| "walk fn path (NoStat n) s = fn path None True s"
| "walk fn path (NoList n) s = fn path (infoOf (NoList n)) True s"
| "walk fn path (Dir n kids) s =
     (case fn path (infoOf (Dir n kids)) False s of
        (Some err1, s1) \<Rightarrow> (Some err1, s1)
      | (None, s1) \<Rightarrow> walkNames fn path kids s1)"
| "walkNames fn path [] s = (None, s)"
| "walkNames fn path (k # ks) s =
     (let filename = filepath_Join path (nodeName k)
      in case k of
           NoStat n \<Rightarrow>
             (case fn filename None True s of
                (Some (WalkErr m), s1) \<Rightarrow> (Some (WalkErr m), s1)
              | (_, s1) \<Rightarrow> walkNames fn path ks s1)
         | _ \<Rightarrow>
             (case walk fn filename k s of
                (Some err, s1) \<Rightarrow>
                  if \<not> nodeIsDir k \<or> err \<noteq> SkipDir then (Some err, s1)
                  else walkNames fn path ks s1
              | (None, s1) \<Rightarrow> walkNames fn path ks s1))"

definition filepath_Walk :: "string \<Rightarrow> fsnode \<Rightarrow> 's walkfunc \<Rightarrow> 's \<Rightarrow> string option \<times> 's" where
  "filepath_Walk root node fn s =
     (case walk fn root node s of
        (Some (WalkErr m), s1) \<Rightarrow> (Some m, s1)
      | (_, s1) \<Rightarrow> (None, s1))"

section \<open>Project discovery\<close>

definition composeNames :: "string list" where
  "composeNames = [''docker-compose.yml'', ''docker-compose.yaml'', ''compose.yml'', ''compose.yaml'']"

text \<open>The test on the file name as the walk function makes it: a name match, then the control test.\<close>

definition isProjectFile :: "string \<Rightarrow> bool" where
  "isProjectFile name =
     (if name = ''docker-compose.yml'' \<or> name = ''docker-compose.yaml'' \<or>
         name = ''compose.yml'' \<or> name = ''compose.yaml''
      then (if strings_Contains name ''control'' then False else True)
      else False)"

text \<open>The same test without the control test.\<close>

definition isComposeName :: "string \<Rightarrow> bool" where
  "isComposeName name =
     (name = ''docker-compose.yml'' \<or> name = ''docker-compose.yaml'' \<or>
      name = ''compose.yml'' \<or> name = ''compose.yaml'')"

definition newProject :: "string \<Rightarrow> string \<Rightarrow> string \<Rightarrow> Time \<Rightarrow> Project" where
  "newProject projectName projectDir path now =
     \<lparr>Name = projectName, Path = projectDir, ComposeFile = path, Status = [],
      RunningContainers = 0, Images = [], ImageInfoMap = Map.empty, HasUpdates = False,
      LastUpdated = now\<rparr>"

text \<open>The closure handed to \<^verbatim>\<open>filepath.Walk\<close>; its state is the project list and the commands run.\<close>

definition findVisit ::
  "env \<Rightarrow> string \<Rightarrow> int \<Rightarrow> (Project list \<times> command list) walkfunc" where
  "findVisit e searchDir maxDepth path info err st =
     (if err then (None, st)
      else
        (case info of
           None \<Rightarrow> (None, st)
         | Some fi \<Rightarrow>
             (let relPath = (case filepath_Rel searchDir path of Some r \<Rightarrow> r | None \<Rightarrow> []);
                  depth = int (length (strings_Split relPath (CHR ''/'')))
              in if depth > maxDepth then ((if fi_IsDir fi then Some SkipDir else None), st)
                 else if \<not> fi_IsDir fi \<and> isProjectFile (fi_Name fi) then
                   (let projectDir = filepath_Dir path;
                        projectName = filepath_Base projectDir;
                        project = newProject projectName projectDir path (clock e (snd st));
                        (uerr, p1, log1) = UpdateStatus e project (snd st)
                    in if uerr = None then (None, (fst st @ [p1], log1))
                       else (None, (fst st, log1)))
                 else (None, st))))"

definition FindProjects ::
  "env \<Rightarrow> string \<Rightarrow> int \<Rightarrow> fsnode \<Rightarrow> command list \<Rightarrow> (error + Project list) \<times> command list" where
  "FindProjects e searchDir maxDepth tree log =
     (case filepath_Walk searchDir tree (findVisit e searchDir maxDepth) ([], log) of
        (Some m, (projects, log1)) \<Rightarrow> (Inl (''failed to search for projects: '' @ m), log1)
      | (None, (projects, log1)) \<Rightarrow>
          if length projects = 0
          then (Inl (''no docker-compose projects found in '' @ searchDir), log1)
          else (Inr projects, log1))"

section \<open>Image information\<close>












definition CheckForUpdates :: "Project \<Rightarrow> bool" where
  "CheckForUpdates p = HasUpdates p"

section \<open>Cleaning the tool's error output\<close>

definition isProgressLine :: "string \<Rightarrow> bool" where
  "isProgressLine line =
     (strings_Contains line ''Pulling'' \<or> strings_Contains line ''Downloaded'' \<or>
      strings_Contains line ''Digest:'' \<or> strings_Contains line ''Status:'' \<or>
      strings_Contains line ''Waiting'' \<or> strings_Contains line ''Extracting'')"

definition isTracebackNoise :: "string \<Rightarrow> bool" where
  "isTracebackNoise line =
     (strings_HasPrefix line ''Traceback'' \<or> strings_HasPrefix line ''File '' \<or>
      strings_Contains line ''raise error_to_reraise'' \<or> strings_Contains line ''raise err from'' \<or>
      (strings_Contains line ''line '' \<and> strings_Contains line ''.py''))"

text \<open>The error type and message of an exception line; \<open>None\<close> when the line is not one.\<close>

definition exceptionLine :: "string \<Rightarrow> string option" where
  "exceptionLine line =
     (if strings_Contains line ''Error:'' \<or> strings_Contains line ''Exception:'' then
        (case strings_SplitN2 line (CHR '':'') of
           [p0, p1] \<Rightarrow>
             (let errorType0 = strings_TrimSpace p0;
                  errorMsg = strings_TrimSpace p1;
                  errorType = (case strings_LastIndex errorType0 ''.'' of
                                 Some idx \<Rightarrow> drop (idx + 1) errorType0
                               | None \<Rightarrow> errorType0)
              in Some (errorType @ '': '' @ errorMsg))
         | _ \<Rightarrow> None)
      else None)"

definition isErrorMessage :: "string \<Rightarrow> bool" where
  "isErrorMessage line =
     ((strings_Contains line ''Error'' \<or> strings_Contains line ''error'' \<or>
       strings_Contains line ''failed'' \<or> strings_Contains line ''cannot'') \<and>
      \<not> strings_Contains line ''Traceback'')"

text \<open>The first loop of \<^verbatim>\<open>cleanDockerError\<close>; the result is \<^verbatim>\<open>relevantLines\<close> after it.\<close>

fun relevantLoop :: "string list \<Rightarrow> string list \<Rightarrow> string list" where
  "relevantLoop [] relevantLines = relevantLines"
| "relevantLoop (l # ls) relevantLines =
     (let line = strings_TrimSpace l
      in if line = [] then relevantLoop ls relevantLines
         else if isProgressLine line then relevantLoop ls relevantLines
         else if isTracebackNoise line then relevantLoop ls relevantLines
         else
           (case exceptionLine line of
              Some cleaned \<Rightarrow> [cleaned]
            | None \<Rightarrow>
                if isErrorMessage line then relevantLoop ls (relevantLines @ [line])
                else relevantLoop ls relevantLines))"

text \<open>The second loop: the last line that is not empty, when the first loop kept nothing.\<close>

definition lastNonEmpty :: "string list \<Rightarrow> string list" where
  "lastNonEmpty lines = (case filter (\<lambda>l. l \<noteq> []) (rev lines) of [] \<Rightarrow> [] | l # _ \<Rightarrow> [l])"

definition stripCommandEcho :: "string \<Rightarrow> string" where
  "stripCommandEcho errorMsg =
     (if strings_Contains errorMsg ''docker'' \<and>
         (strings_Contains errorMsg ''Error'' \<or> strings_Contains errorMsg ''error'') then
        (case strings_Index errorMsg ''Error'' of
           Some idx \<Rightarrow> drop idx errorMsg
         | None \<Rightarrow>
             (case strings_Index errorMsg ''error'' of
                Some idx \<Rightarrow> drop idx errorMsg
              | None \<Rightarrow> errorMsg))
      else errorMsg)"

definition cleanDockerError :: "string \<Rightarrow> string \<Rightarrow> string \<Rightarrow> error" where
  "cleanDockerError operation output err =
     (let lines = strings_Split (strings_TrimSpace output) (CHR 0x0A);
          relevant1 = relevantLoop lines [];
          relevant2 = (if length relevant1 = 0 then lastNonEmpty lines else relevant1);
          relevant3 = (if length relevant2 > 1 then drop (length relevant2 - 1) relevant2
                       else relevant2)
      in case relevant3 of
           errorMsg # _ \<Rightarrow> operation @ '' failed: '' @ stripCommandEcho errorMsg
         | [] \<Rightarrow> operation @ '' failed: '' @ err)"

section \<open>The update executor\<close>

definition PullOnly :: "env \<Rightarrow> Project \<Rightarrow> command list \<Rightarrow> error option \<times> Project \<times> command list" where
  "PullOnly e p log =
     (let (r, log1) = withFallback e log [''pull''] (Path p) CombinedOutput
      in case res_err r of
           Some err \<Rightarrow> (Some (cleanDockerError ''pull'' (res_out r) err), p, log1)
         | None \<Rightarrow> UpdateStatus e p log1)"


section \<open>The JSON form of the project collection (package encoding/json)\<close>

text \<open>
  \<^verbatim>\<open>json.MarshalIndent\<close> and \<^verbatim>\<open>json.Unmarshal\<close> work in two layers. The upper layer turns a Go
  value into a tree of JSON values and back; on the types of the program it is fixed by the
  struct tags of \<^verbatim>\<open>Project\<close> and \<^verbatim>\<open>ImageInfo\<close> and by the documented rules of the package, and is
  written out below. The lower layer prints a tree as indented text and parses text into a
  tree; it is a parameter, as is the text form of a \<^verbatim>\<open>time.Time\<close> (RFC 3339 with nanoseconds),
  which carries the instant and the zone offset and whose encoder fails on a year outside
  0..9999. A number is an integer literal, or some other number literal, which no integer field
  accepts.
\<close>

datatype jvalue =
    JNull | JBool bool | JNumber int | JFloat string | JString string | JArray "jvalue list"
  | JObject "(string \<times> jvalue) list"

record codec =
  json_text :: "jvalue \<Rightarrow> string"
  json_value :: "string \<Rightarrow> error + jvalue"
  time_text :: "int \<Rightarrow> int \<Rightarrow> string option"
  time_parse :: "string \<Rightarrow> (int \<times> int) option"

subsection \<open>Strings\<close>





subsection \<open>Encoding\<close>








subsection \<open>Decoding\<close>

text \<open>
  The members of an object are stored one after the other into the value decoded so far. A key
  selects the field whose tag it equals, or else the field whose tag it equals under simple
  case folding; a key that selects none is skipped. Under simple case folding an ASCII letter
  equals its other case, \<^verbatim>\<open>s\<close> also U+017F and \<^verbatim>\<open>k\<close> also U+212A. \<open>foldsTo c\<close> lists the encodings of
  the code points that equal the small letter or other byte \<open>c\<close> of a tag.
\<close>

definition foldsTo :: "char \<Rightarrow> string list" where
  "foldsTo c =
     [c] #
     (if (97::nat) \<le> of_char c \<and> of_char c \<le> (122::nat)
      then [[char_of (of_char c - (32::nat))]] else []) @
     (if c = CHR ''s'' then [[CHR 0xC5, CHR 0xBF]] else []) @
     (if c = CHR ''k'' then [[CHR 0xE2, CHR 0x84, CHR 0xAA]] else [])"

fun equalFold :: "string \<Rightarrow> string \<Rightarrow> bool" where
  "equalFold key [] = (key = [])"
| "equalFold key (c # cs) =
     list_ex (\<lambda>r. strings_HasPrefix key r \<and> equalFold (drop (length r) key) cs) (foldsTo c)"

definition fieldNamed :: "string list \<Rightarrow> string \<Rightarrow> string option" where
  "fieldNamed tags key = (if key \<in> set tags then Some key else find (equalFold key) tags)"

text \<open>
  Storing a JSON value into a field that holds \<open>cur\<close>: \<^verbatim>\<open>null\<close> leaves a string, a boolean, an
  integer, a struct and a timestamp as they are and makes a slice and a map nil; a value of
  the wrong kind is an error (\<open>None\<close>), and so is an integer outside 64 bits. An array replaces
  the slice, where a \<^verbatim>\<open>null\<close> element keeps the element the slice had at that place; an object is
  stored into the map entry by entry, every entry decoded from the zero value.
\<close>

fun setString :: "string \<Rightarrow> jvalue \<Rightarrow> string option" where
  "setString cur (JString s) = Some s"
| "setString cur JNull = Some cur"
| "setString cur _ = None"

fun setBool :: "bool \<Rightarrow> jvalue \<Rightarrow> bool option" where
  "setBool cur (JBool b) = Some b"
| "setBool cur JNull = Some cur"
| "setBool cur _ = None"

fun setInt :: "int \<Rightarrow> jvalue \<Rightarrow> int option" where
  "setInt cur (JNumber n) = (if - (2 ^ 63) \<le> n \<and> n < 2 ^ 63 then Some n else None)"
| "setInt cur JNull = Some cur"
| "setInt cur _ = None"

fun setElements :: "string list \<Rightarrow> jvalue list \<Rightarrow> string list option" where
  "setElements cur [] = Some []"
| "setElements cur (v # vs) =
     (case setString (case cur of [] \<Rightarrow> [] | c # _ \<Rightarrow> c) v of
        None \<Rightarrow> None
      | Some s \<Rightarrow> map_option ((#) s) (setElements (tl cur) vs))"

fun setStrings :: "string list \<Rightarrow> jvalue \<Rightarrow> string list option" where
  "setStrings cur (JArray vs) = setElements cur vs"
| "setStrings cur JNull = Some []"
| "setStrings cur _ = None"

fun setTime :: "codec \<Rightarrow> Time \<Rightarrow> jvalue \<Rightarrow> Time option" where
  "setTime cd cur (JString s) =
     map_option (\<lambda>(i, off). \<lparr>instant = i, zoneOffset = off, monotonic = None\<rparr>) (time_parse cd s)"
| "setTime cd cur JNull = Some cur"
| "setTime cd cur _ = None"

text \<open>The members of an object, stored in order; the first error ends the decoding.\<close>

fun storeMembers :: "('a \<Rightarrow> string \<times> jvalue \<Rightarrow> 'a option) \<Rightarrow> 'a \<Rightarrow> (string \<times> jvalue) list \<Rightarrow> 'a option" where
  "storeMembers f cur [] = Some cur"
| "storeMembers f cur (kv # kvs) =
     (case f cur kv of None \<Rightarrow> None | Some next \<Rightarrow> storeMembers f next kvs)"

definition imageInfoTags :: "string list" where
  "imageInfoTags = [''name'', ''current_version'', ''latest_version'', ''has_update'']"

definition zeroImageInfo :: ImageInfo where
  "zeroImageInfo = \<lparr>ImageName = [], CurrentVersion = [], LatestVersion = [], HasUpdate = False\<rparr>"

definition setImageInfoField :: "ImageInfo \<Rightarrow> string \<times> jvalue \<Rightarrow> ImageInfo option" where
  "setImageInfoField i kv =
     (case fieldNamed imageInfoTags (fst kv) of
        None \<Rightarrow> Some i
      | Some tag \<Rightarrow>
          if tag = ''name'' then
            map_option (\<lambda>s. i\<lparr>ImageName := s\<rparr>) (setString (ImageName i) (snd kv))
          else if tag = ''current_version'' then
            map_option (\<lambda>s. i\<lparr>CurrentVersion := s\<rparr>) (setString (CurrentVersion i) (snd kv))
          else if tag = ''latest_version'' then
            map_option (\<lambda>s. i\<lparr>LatestVersion := s\<rparr>) (setString (LatestVersion i) (snd kv))
          else
            map_option (\<lambda>b. i\<lparr>HasUpdate := b\<rparr>) (setBool (HasUpdate i) (snd kv)))"

fun setImageInfo :: "ImageInfo \<Rightarrow> jvalue \<Rightarrow> ImageInfo option" where
  "setImageInfo cur (JObject kvs) = storeMembers setImageInfoField cur kvs"
| "setImageInfo cur JNull = Some cur"
| "setImageInfo cur _ = None"

definition setEntry ::
  "(string \<rightharpoonup> ImageInfo) \<Rightarrow> string \<times> jvalue \<Rightarrow> (string \<rightharpoonup> ImageInfo) option" where
  "setEntry m kv = map_option (\<lambda>i. m(fst kv \<mapsto> i)) (setImageInfo zeroImageInfo (snd kv))"

fun setImageInfoMap :: "(string \<rightharpoonup> ImageInfo) \<Rightarrow> jvalue \<Rightarrow> (string \<rightharpoonup> ImageInfo) option" where
  "setImageInfoMap cur (JObject kvs) = storeMembers setEntry cur kvs"
| "setImageInfoMap cur JNull = Some Map.empty"
| "setImageInfoMap cur _ = None"

definition projectTags :: "string list" where
  "projectTags =
     [''name'', ''path'', ''compose_file'', ''status'', ''running_containers'', ''images'',
      ''image_info'', ''has_updates'', ''last_updated'']"

definition zeroProject :: Project where
  "zeroProject =
     \<lparr>Name = [], Path = [], ComposeFile = [], Status = [], RunningContainers = 0, Images = [],
      ImageInfoMap = Map.empty, HasUpdates = False, LastUpdated = zeroTime\<rparr>"

definition setProjectField :: "codec \<Rightarrow> Project \<Rightarrow> string \<times> jvalue \<Rightarrow> Project option" where
  "setProjectField cd p kv =
     (case fieldNamed projectTags (fst kv) of
        None \<Rightarrow> Some p
      | Some tag \<Rightarrow>
          if tag = ''name'' then
            map_option (\<lambda>s. p\<lparr>Name := s\<rparr>) (setString (Name p) (snd kv))
          else if tag = ''path'' then
            map_option (\<lambda>s. p\<lparr>Path := s\<rparr>) (setString (Path p) (snd kv))
          else if tag = ''compose_file'' then
            map_option (\<lambda>s. p\<lparr>ComposeFile := s\<rparr>) (setString (ComposeFile p) (snd kv))
          else if tag = ''status'' then
            map_option (\<lambda>s. p\<lparr>Status := s\<rparr>) (setString (Status p) (snd kv))
          else if tag = ''running_containers'' then
            map_option (\<lambda>n. p\<lparr>RunningContainers := n\<rparr>) (setInt (RunningContainers p) (snd kv))
          else if tag = ''images'' then
            map_option (\<lambda>xs. p\<lparr>Images := xs\<rparr>) (setStrings (Images p) (snd kv))
          else if tag = ''image_info'' then
            map_option (\<lambda>m. p\<lparr>ImageInfoMap := m\<rparr>) (setImageInfoMap (ImageInfoMap p) (snd kv))
          else if tag = ''has_updates'' then
            map_option (\<lambda>b. p\<lparr>HasUpdates := b\<rparr>) (setBool (HasUpdates p) (snd kv))
          else
            map_option (\<lambda>t. p\<lparr>LastUpdated := t\<rparr>) (setTime cd (LastUpdated p) (snd kv)))"

text \<open>
  An element of the collection: \<^verbatim>\<open>null\<close> is a nil pointer, an object is stored into a new
  \<^verbatim>\<open>Project\<close>.
\<close>

fun asPointer :: "codec \<Rightarrow> jvalue \<Rightarrow> Project option option" where
  "asPointer cd JNull = Some None"
| "asPointer cd (JObject kvs) = map_option Some (storeMembers (setProjectField cd) zeroProject kvs)"
| "asPointer cd _ = None"

fun asProjects :: "codec \<Rightarrow> jvalue \<Rightarrow> Project option list option" where
  "asProjects cd (JArray vs) = those (map (asPointer cd) vs)"
| "asProjects cd JNull = Some []"
| "asProjects cd _ = None"

definition json_Unmarshal :: "codec \<Rightarrow> string \<Rightarrow> error + Project option list" where
  "json_Unmarshal cd data =
     (case json_value cd data of
        Inl err \<Rightarrow> Inl err
      | Inr v \<Rightarrow>
          (case asProjects cd v of
             None \<Rightarrow> Inl ''json: cannot unmarshal value into Go value''
           | Some ps \<Rightarrow> Inr ps))"

section \<open>The cache store\<close>

text \<open>
  The collection that is saved and loaded is a slice of pointers to projects: a list whose
  elements are \<open>Some\<close> project, or \<open>None\<close> for a nil pointer. The file system, as far as the cache
  reads it: a file has its bytes, its modification time (an
  instant, in nanoseconds) and whether the process may read it. \<^verbatim>\<open>os.WriteFile\<close> fails where the
  path cannot be opened for writing; it creates a missing file readable (mode 0644) and keeps the
  mode of a file that exists.
\<close>

record osfile =
  file_data :: string
  file_modTime :: int
  file_readable :: bool

record filesys =
  files :: "string \<rightharpoonup> osfile"
  writable :: "string \<Rightarrow> bool"


definition os_ReadFile :: "filesys \<Rightarrow> string \<Rightarrow> error + string" where
  "os_ReadFile fs name =
     (case files fs name of
        None \<Rightarrow> Inl (''open '' @ name @ '': no such file or directory'')
      | Some f \<Rightarrow> if file_readable f then Inr (file_data f)
                  else Inl (''open '' @ name @ '': permission denied''))"

text \<open>\<^verbatim>\<open>Time.Sub\<close>: a duration is a signed 64-bit count of nanoseconds, and the difference saturates.\<close>

definition maxDuration :: int where
  "maxDuration = 2 ^ 63 - 1"

definition minDuration :: int where
  "minDuration = - (2 ^ 63)"

definition time_Sub :: "int \<Rightarrow> int \<Rightarrow> int" where
  "time_Sub t u = (if t - u > maxDuration then maxDuration
                   else if t - u < minDuration then minDuration else t - u)"

definition time_Since :: "int \<Rightarrow> int \<Rightarrow> int" where
  "time_Since now t = time_Sub now t"


definition LoadFromCache ::
  "codec \<Rightarrow> filesys \<Rightarrow> int \<Rightarrow> string \<Rightarrow> int \<Rightarrow> error + Project option list" where
  "LoadFromCache cd fs now cacheFile maxAge =
     (case files fs cacheFile of
        None \<Rightarrow> Inl ''cache file not found''
      | Some info \<Rightarrow>
          if time_Since now (file_modTime info) > maxAge then Inl ''cache expired''
          else
            (case os_ReadFile fs cacheFile of
               Inl err \<Rightarrow> Inl (''failed to read cache: '' @ err)
             | Inr data \<Rightarrow>
                 (case json_Unmarshal cd data of
                    Inl err \<Rightarrow> Inl (''failed to unmarshal cache: '' @ err)
                  | Inr projects \<Rightarrow> Inr projects)))"

section \<open>The parallel update choreography (package ui)\<close>

datatype Screen =
    ScreenMainMenu | ScreenContainerList | ScreenContainerDetail | ScreenActionMenu
  | ScreenUpdateList | ScreenUpdateModeSelect | ScreenUpdateRestartConfirm | ScreenUpdateConfirm
  | ScreenUpdating | ScreenLoading | ScreenHelp | ScreenConfirmExit

text \<open>
  The fields of \<^verbatim>\<open>Model\<close> that the handlers below read or write. \<^verbatim>\<open>selectedProject\<close> points to
  one of the projects of the model and is the index of that project. The two selections are Go
  maps used as sets of project indices: each is the list of its keys, without repetition, in the
  order a \<^verbatim>\<open>range\<close> over the map yields them. The cursor is never negative. The field \<^verbatim>\<open>err\<close> is
  called \<open>modelErr\<close> here.
\<close>

record Model =
  projects :: "Project list"
  screen :: Screen
  cursor :: int
  selectedProject :: "nat option"
  selectedUpdates :: "nat list"
  selectedRestarts :: "nat list"
  updateMode :: string
  message :: string
  loading :: bool
  modelErr :: "error option"
  quitting :: bool
  updateProgress :: string
  updatesTotal :: int
  updatesCompleted :: int
  projectUpdateStatus :: "nat \<rightharpoonup> string"
  projectUpdateResult :: "nat \<rightharpoonup> string"
  currentUpdateIndex :: int
  viewportOffset :: int

record updateCompleteMsg =
  projectIndex :: nat
  projectName :: string
  success :: bool
  msgErr :: "error option"













text \<open>
  \<^verbatim>\<open>Model.Update\<close> on the enter key and on the messages of the asynchronous commands: the reply of
  an operation on the selected project (\<^verbatim>\<open>operationMsg\<close>, \<^verbatim>\<open>errorMsg\<close>), the tick, and the
  completion of one update. The reply of an operation refreshes the status of the selected
  project, which runs commands.
\<close>

datatype msg =
    KeyEnter | OperationMsg string | ErrorMsg error | TickMsg | UpdateCompleteMsg updateCompleteMsg





section \<open>Concrete environments and inputs\<close>


definition failResult :: "string \<Rightarrow> cmd_result" where
  "failResult out = \<lparr>res_out = out, res_err = Some ''exit status 1'', res_deadline = False\<rparr>"

text \<open>A reading of the clock at an instant, in UTC; the monotonic reading is the same number.\<close>

definition timeAt :: "int \<Rightarrow> Time" where
  "timeAt n = \<lparr>instant = n, zoneOffset = 0, monotonic = Some n\<rparr>"

text \<open>An environment in which every command has the same result.\<close>

definition constEnv :: "cmd_result \<Rightarrow> env" where
  "constEnv r = \<lparr>exec = (\<lambda>log c. r), clock = (\<lambda>log. timeAt (int (length log))), parseLabels = (\<lambda>s. None)\<rparr>"

definition deadEnv :: env where
  "deadEnv = constEnv (failResult [])"




definition keyErrorLine :: string where
  "keyErrorLine = ''KeyError: '' @ [CHR 0x27] @ ''ContainerConfig'' @ [CHR 0x27]"

text \<open>A frame line of a Python traceback; the file name stands in double quotes.\<close>

definition frameLine :: "string \<Rightarrow> string \<Rightarrow> string" where
  "frameLine fileName place = ''  File '' @ [CHR 0x22] @ fileName @ [CHR 0x22] @ '', '' @ place"

text \<open>The output of a failed pull: progress, a traceback, the final exception line.\<close>

definition tracebackOutput :: string where
  "tracebackOutput =
     ''Pulling web ... done'' @ [CHR 0x0A] @
     ''Traceback (most recent call last):'' @ [CHR 0x0A] @
     frameLine ''compose/service.py'' ''line 330, in _get_container_create_options'' @ [CHR 0x0A] @
     ''    container.image_config.get()'' @ [CHR 0x0A] @
     keyErrorLine @ [CHR 0x0A]"

text \<open>The output of a failed pull with a chained exception before the final one.\<close>

definition chainedTraceback :: string where
  "chainedTraceback =
     ''Traceback (most recent call last):'' @ [CHR 0x0A] @
     frameLine ''docker/api/client.py'' ''line 268, in _raise_for_status'' @ [CHR 0x0A] @
     ''requests.exceptions.HTTPError: 404 Client Error: Not Found'' @ [CHR 0x0A] @
     ''Traceback (most recent call last):'' @ [CHR 0x0A] @
     frameLine ''compose/service.py'' ''line 330, in _get_container_create_options'' @ [CHR 0x0A] @
     keyErrorLine @ [CHR 0x0A]"


definition exampleProjects :: "Project option list" where
  "exampleProjects =
     [Some \<lparr>Name = ''web'', Path = ''/srv/web'', ComposeFile = ''/srv/web/compose.yaml'',
       Status = ''running:1'', RunningContainers = 1, Images = [''nginx:1.25''],
       ImageInfoMap = [''nginx:1.25'' \<mapsto>
          \<lparr>ImageName = ''nginx:1.25'', CurrentVersion = ''1.25'', LatestVersion = ''1.25'',
           HasUpdate = False\<rparr>],
       HasUpdates = False,
       LastUpdated = \<lparr>instant = 3600000000000, zoneOffset = 0, monotonic = None\<rparr>\<rparr>]"

text \<open>
  A lower layer that knows one tree, the one of the example collection, and one timestamp; the
  text \<^verbatim>\<open>web.json\<close> stands for the indented text of the tree.
\<close>

definition exampleValue :: jvalue where
  "exampleValue =
     JArray [JObject [(''name'', JString ''web''),
                      (''path'', JString ''/srv/web''),
                      (''compose_file'', JString ''/srv/web/compose.yaml''),
                      (''status'', JString ''running:1''),
                      (''running_containers'', JNumber 1),
                      (''images'', JArray [JString ''nginx:1.25'']),
                      (''image_info'',
                         JObject [(''nginx:1.25'',
                            JObject [(''name'', JString ''nginx:1.25''),
                                     (''current_version'', JString ''1.25''),
                                     (''latest_version'', JString ''1.25''),
                                     (''has_update'', JBool False)])]),
                      (''has_updates'', JBool False),
                      (''last_updated'', JString ''0001-01-01T01:00:00Z'')]]"

definition exampleCodec :: codec where
  "exampleCodec =
     \<lparr>json_text = (\<lambda>v. if v = exampleValue then ''web.json'' else ''other.json''),
      json_value = (\<lambda>s. if s = ''web.json'' then Inr exampleValue
                         else Inl ''invalid character''),
      time_text = (\<lambda>t off. if t = 3600000000000 \<and> off = 0 then Some ''0001-01-01T01:00:00Z''
                            else None),
      time_parse = (\<lambda>s. if s = ''0001-01-01T01:00:00Z'' then Some (3600000000000, 0) else None)\<rparr>"





definition emptyDisk :: filesys where
  "emptyDisk = \<lparr>files = Map.empty, writable = (\<lambda>name. True)\<rparr>"

text \<open>One hour, the maximal age the program passes, in nanoseconds.\<close>

definition oneHour :: int where
  "oneHour = 3600000000000"

text \<open>A disk whose cache file was written at instant 0.\<close>

definition cachedDisk :: filesys where
  "cachedDisk =
     \<lparr>files = [''cache.json'' \<mapsto> \<lparr>file_data = ''web.json'', file_modTime = 0, file_readable = True\<rparr>],
      writable = (\<lambda>name. True)\<rparr>"


definition webProject :: Project where
  "webProject = newProject ''web'' ''/srv/web'' ''/srv/web/compose.yaml'' (timeAt 0)"









text \<open>
  Absolute search directories: \<open>absPath [n1, ..., nk]\<close> is \<^verbatim>\<open>/n1/.../nk\<close>, for names that are not
  empty, hold no separator and are neither \<^verbatim>\<open>.\<close> nor \<^verbatim>\<open>..\<close>.
\<close>

definition simpleName :: "string \<Rightarrow> bool" where
  "simpleName n = (n \<noteq> [] \<and> CHR ''/'' \<notin> set n \<and> n \<noteq> ''.'' \<and> n \<noteq> ''..'')"

definition absPath :: "string list \<Rightarrow> string" where
  "absPath ns = concat (map (\<lambda>n. CHR ''/'' # n) ns)"

text \<open>The tree of the scenario: two project directories, one compose file in each.\<close>

definition twoProjects :: "string \<Rightarrow> fsnode" where
  "twoProjects rootName =
     Dir rootName [Dir ''app1'' [File ''docker-compose.yml''], Dir ''app2'' [File ''compose.yaml'']]"

section \<open>Terms in which the properties are stated\<close>

text \<open>
  The notions below are not part of the program. They spell out, in terms of the string helpers
  alone, what the properties say about a line of output.
\<close>

text \<open>The trimmed text after the first colon of a line, and the trimmed text before it.\<close>

definition afterColon :: "string \<Rightarrow> string" where
  "afterColon line = strings_TrimSpace (tl (dropWhile (\<lambda>c. c \<noteq> CHR '':'') line))"

definition beforeColon :: "string \<Rightarrow> string" where
  "beforeColon line = strings_TrimSpace (takeWhile (\<lambda>c. c \<noteq> CHR '':'') line)"





text \<open>
  The scan of the error output passes over a (trimmed) line that is empty, that is progress
  output, or that is traceback noise.
\<close>

definition skippedLine :: "string \<Rightarrow> bool" where
  "skippedLine line =
     (line = [] \<or>
      list_ex (strings_Contains line)
        [''Pulling'', ''Downloaded'', ''Digest:'', ''Status:'', ''Waiting'', ''Extracting''] \<or>
      strings_HasPrefix line ''Traceback'' \<or> strings_HasPrefix line ''File '' \<or>
      strings_Contains line ''raise error_to_reraise'' \<or> strings_Contains line ''raise err from'' \<or>
      (strings_Contains line ''line '' \<and> strings_Contains line ''.py''))"

text \<open>The scan stops at a line that it does not pass over and that holds \<^verbatim>\<open>Error:\<close> or \<^verbatim>\<open>Exception:\<close>.\<close>

definition stopsScan :: "string \<Rightarrow> bool" where
  "stopsScan l =
     (\<not> skippedLine (strings_TrimSpace l) \<and>
      (strings_Contains (strings_TrimSpace l) ''Error:'' \<or>
       strings_Contains (strings_TrimSpace l) ''Exception:''))"

text \<open>
  The exception named by such a line: the text before its first colon, from after the last dot
  of that text on, then a colon and a space, then the text after its first colon.
\<close>

definition afterLastDot :: "string \<Rightarrow> string" where
  "afterLastDot s = (case strings_LastIndex s ''.'' of Some i \<Rightarrow> drop (i + 1) s | None \<Rightarrow> s)"

definition exceptionText :: "string \<Rightarrow> string" where
  "exceptionText l =
     afterLastDot (beforeColon (strings_TrimSpace l)) @ '': '' @ afterColon (strings_TrimSpace l)"

text \<open>
  The text that is surfaced: a text that holds \<^verbatim>\<open>docker\<close> is cut to start at its first \<^verbatim>\<open>Error\<close>,
  or else at its first \<^verbatim>\<open>error\<close>, when it holds one.
\<close>

definition surfaced :: "string \<Rightarrow> string" where
  "surfaced x =
     (if strings_Contains x ''docker'' then
        (case strings_Index x ''Error'' of
           Some i \<Rightarrow> drop i x
         | None \<Rightarrow> (case strings_Index x ''error'' of Some i \<Rightarrow> drop i x | None \<Rightarrow> x))
      else x)"












section \<open>Facts about the string helpers\<close>

lemma strings_Split_nonempty: "strings_Split s c \<noteq> []"
  by (induction s) (auto split: list.splits)

lemma strings_Split_no_sep: "l \<in> set (strings_Split s c) \<Longrightarrow> c \<notin> set l"
proof (induction s arbitrary: l)
  case Nil
  then show ?case by simp
next
  case (Cons x xs)
  show ?case
  proof (cases "x = c")
    case True
    with Cons show ?thesis by auto
  next
    case False
    obtain p ps where sp: "strings_Split xs c = p # ps"
      using strings_Split_nonempty [of xs c] by (cases "strings_Split xs c") auto
    with Cons False show ?thesis by auto
  qed
qed

lemma set_trimLeft: "set (trimLeft s) \<subseteq> set s"
proof (induction s rule: trimLeft.induct)
  case (1 s)
  show ?case
  proof (cases "spaceWidth s = 0")
    case True
    then show ?thesis by (subst trimLeft.simps) simp
  next
    case False
    have "set (trimLeft (drop (spaceWidth s) s)) \<subseteq> set (drop (spaceWidth s) s)"
      using 1 False by simp
    also have "\<dots> \<subseteq> set s" by (rule set_drop_subset)
    finally show ?thesis using False by (subst trimLeft.simps) simp
  qed
qed

lemma set_trimRight: "set (trimRight s) \<subseteq> set s"
proof (induction s rule: trimRight.induct)
  case (1 s)
  show ?case
  proof (cases "spaceWidthLast s = 0")
    case True
    then show ?thesis by (subst trimRight.simps) simp
  next
    case False
    have "set (trimRight (take (length s - spaceWidthLast s) s))
            \<subseteq> set (take (length s - spaceWidthLast s) s)"
      using 1 False by simp
    also have "\<dots> \<subseteq> set s" by (rule set_take_subset)
    finally show ?thesis using False by (subst trimRight.simps) simp
  qed
qed

lemma set_TrimSpace: "set (strings_TrimSpace s) \<subseteq> set s"
  using set_trimRight [of "trimLeft s"] set_trimLeft [of s]
  by (auto simp: strings_TrimSpace_def)

section \<open>Properties of the version resolver\<close>

text \<open>
  C3. For every image reference and every tag that is none of the five generic markers
  \<^verbatim>\<open>latest\<close>, \<^verbatim>\<open>stable\<close>, \<^verbatim>\<open>edge\<close>, \<^verbatim>\<open>main\<close>, \<^verbatim>\<open>master\<close>, \<^verbatim>\<open>getRealVersion\<close> returns the tag
  unchanged and runs no command: the list of commands run is the one it was given.
\<close>

theorem getRealVersion_pinned_tag:
  assumes "tagVersion \<notin> {''latest'', ''stable'', ''edge'', ''main'', ''master''}"
  shows "getRealVersion e imageName tagVersion log = (tagVersion, log)"
  using assms by (simp add: getRealVersion_def genericTags_def)

text \<open>The tag \<^verbatim>\<open>15\<close> of \<^verbatim>\<open>postgres:15\<close>, in an environment where every command would fail.\<close>

theorem getRealVersion_pinned_tag_witness:
  "''15'' \<notin> {''latest'', ''stable'', ''edge'', ''main'', ''master''} \<and>
   getRealVersion deadEnv ''postgres:15'' ''15'' [] = (''15'', [])"
  using getRealVersion_pinned_tag [of "''15''" deadEnv "''postgres:15''" "[]"] by simp












section \<open>Properties of project discovery\<close>

text \<open>
  C10. The control test of the walk function excludes nothing: the test on the file name with
  the control test and the test without it are the same function, since the control test is
  only reached by one of the four accepted names, none of which contains \<^verbatim>\<open>control\<close>.
\<close>

theorem control_check_vacuous: "isProjectFile = isComposeName"
  by (rule ext) (simp add: isProjectFile_def isComposeName_def)

lemma UpdateStatus_err: "fst (UpdateStatus e p log) = None"
  unfolding UpdateStatus_def Let_def
  by (simp split: prod.splits)

lemma UpdateStatus_Name: "Name (fst (snd (UpdateStatus e p log))) = Name p"
  unfolding UpdateStatus_def Let_def stopped_def
  by (simp split: prod.splits)

lemma findVisit_no_WalkErr: "fst (findVisit e sd md path info err st) \<noteq> Some (WalkErr m)"
  unfolding findVisit_def Let_def
  by (simp split: option.splits prod.splits)

lemma walk_no_WalkErr:
  assumes fn: "\<And>path info err s r s1 m. fn path info err s = (r, s1) \<Longrightarrow> r \<noteq> Some (WalkErr m)"
  shows "fst (walk fn path node st) \<noteq> Some (WalkErr m)"
    and "fst (walkNames fn path kids st) \<noteq> Some (WalkErr m)"
  using fn
proof (induction fn path node st and fn path kids st rule: walk_walkNames.induct)
  case (1 fn path n s)
  then show ?case by (cases "fn path (infoOf (File n)) False s") auto
next
  case (2 fn path n s)
  then show ?case by (cases "fn path None True s") auto
next
  case (3 fn path n s)
  then show ?case by (cases "fn path (infoOf (NoList n)) True s") auto
next
  case (4 fn path n kids s)
  then show ?case
    by (fastforce split: prod.splits option.splits)
next
  case (5 fn path s)
  then show ?case by simp
next
  case (6 fn path k ks s)
  then show ?case
    by (fastforce simp: Let_def split: prod.splits option.splits fsnode.splits walkerr.splits if_splits)
qed

lemma findVisit_project:
  assumes "filepath_Rel sd path = Some rel" "int (length (strings_Split rel (CHR ''/''))) \<le> md"
    "isProjectFile name"
  shows "\<exists>p log1. findVisit e sd md path (infoOf (File name)) False (ps, log) = (None, (ps @ [p], log1))
           \<and> Name p = filepath_Base (filepath_Dir path)"
proof -
  let ?proj = "newProject (filepath_Base (filepath_Dir path)) (filepath_Dir path) path (clock e log)"
  obtain uerr p1 log1 where u: "UpdateStatus e ?proj log = (uerr, p1, log1)"
    by (cases "UpdateStatus e ?proj log") auto
  have "uerr = None" using UpdateStatus_err [of e ?proj log] u by simp
  moreover have "Name p1 = filepath_Base (filepath_Dir path)"
    using UpdateStatus_Name [of e ?proj log] u by (simp add: newProject_def)
  ultimately show ?thesis
    using assms u by (simp add: findVisit_def infoOf_def Let_def)
qed

lemma findVisit_dir:
  assumes "filepath_Rel sd path = Some rel" "int (length (strings_Split rel (CHR ''/''))) \<le> md"
  shows "findVisit e sd md path (infoOf (Dir n kids)) False st = (None, st)"
  using assms by (simp add: findVisit_def infoOf_def Let_def)

text \<open>Paths below an absolute search directory.\<close>

lemma Split_prepend:
  "CHR ''/'' \<notin> set n \<Longrightarrow>
   strings_Split (n @ s) (CHR ''/'')
     = (n @ hd (strings_Split s (CHR ''/''))) # tl (strings_Split s (CHR ''/''))"
proof (induction n)
  case Nil
  then show ?case using strings_Split_nonempty [of s "CHR ''/''"] by simp
next
  case (Cons c n)
  then have "strings_Split (n @ s) (CHR ''/'')
     = (n @ hd (strings_Split s (CHR ''/''))) # tl (strings_Split s (CHR ''/''))" by simp
  with Cons.prems show ?case by auto
qed

lemma Split_absPath:
  "\<forall>n \<in> set ns. CHR ''/'' \<notin> set n \<Longrightarrow> strings_Split (absPath ns) (CHR ''/'') = [] # ns"
proof (induction ns)
  case Nil
  then show ?case by (simp add: absPath_def)
next
  case (Cons n ns)
  then have ih: "strings_Split (absPath ns) (CHR ''/'') = [] # ns" by simp
  have "absPath (n # ns) = CHR ''/'' # (n @ absPath ns)" by (simp add: absPath_def)
  moreover have "strings_Split (n @ absPath ns) (CHR ''/'') = n # ns"
    using Split_prepend [of n "absPath ns"] Cons.prems ih by simp
  ultimately show ?case by simp
qed

lemma absPath_append: "absPath (xs @ ys) = absPath xs @ absPath ys"
  by (simp add: absPath_def)

lemma joinSlash_Cons: "joinSlash (m # ms) = m @ absPath ms"
  by (simp add: joinSlash_def absPath_def)

lemma Split_joinSlash:
  "ms \<noteq> [] \<Longrightarrow> \<forall>n \<in> set ms. CHR ''/'' \<notin> set n \<Longrightarrow> strings_Split (joinSlash ms) (CHR ''/'') = ms"
  using Split_prepend Split_absPath by (cases ms) (auto simp: joinSlash_Cons)

lemma cleanStep_simple: "simpleName n \<Longrightarrow> cleanStep r n out = n # out"
  by (simp add: cleanStep_def simpleName_def)

lemma fold_cleanStep_simple:
  "\<forall>n \<in> set ns. simpleName n \<Longrightarrow> fold (cleanStep r) ns out = rev ns @ out"
  by (induction ns arbitrary: out) (simp_all add: cleanStep_simple)

lemma cleanStep_empty: "cleanStep r [] out = out"
  by (simp add: cleanStep_def)

lemma absPath_nonempty: "ns \<noteq> [] \<Longrightarrow> absPath ns \<noteq> [] \<and> hd (absPath ns) = CHR ''/''"
  by (cases ns) (simp_all add: absPath_def)

lemma simple_no_slash: "\<forall>n \<in> set ns. simpleName n \<Longrightarrow> \<forall>n \<in> set ns. CHR ''/'' \<notin> set n"
  by (simp add: simpleName_def)

lemma slash_joinSlash: "ns \<noteq> [] \<Longrightarrow> CHR ''/'' # joinSlash ns = absPath ns"
  by (cases ns) (simp_all add: joinSlash_def absPath_def)

lemma Clean_absPath:
  assumes "ns \<noteq> []" "\<forall>n \<in> set ns. simpleName n"
  shows "filepath_Clean (absPath ns) = absPath ns"
  using assms absPath_nonempty [OF assms(1)] Split_absPath [OF simple_no_slash [OF assms(2)]]
  by (simp add: filepath_Clean_def cleanStep_empty fold_cleanStep_simple slash_joinSlash)

lemma Clean_absPath_slash:
  assumes "ns \<noteq> []" "\<forall>n \<in> set ns. simpleName n"
  shows "filepath_Clean (absPath ns @ ''/'') = absPath ns"
proof -
  have a: "absPath ns @ ''/'' = absPath (ns @ [[]])" by (simp add: absPath_def)
  have "strings_Split (absPath (ns @ [[]])) (CHR ''/'') = [] # ns @ [[]]"
    using Split_absPath [of "ns @ [[]]"] simple_no_slash [OF assms(2)] by simp
  then show ?thesis
    using assms absPath_nonempty [OF assms(1)]
    by (simp add: filepath_Clean_def a [symmetric] cleanStep_empty fold_cleanStep_simple
        slash_joinSlash)
qed

lemma Join_absPath:
  assumes "ns \<noteq> []" "\<forall>n \<in> set ns. simpleName n" "simpleName n"
  shows "filepath_Join (absPath ns) n = absPath (ns @ [n])"
proof -
  have "absPath ns @ ''/'' @ n = absPath (ns @ [n])" by (simp add: absPath_def)
  moreover have "filepath_Clean (absPath (ns @ [n])) = absPath (ns @ [n])"
    using assms by (intro Clean_absPath) auto
  ultimately show ?thesis
    using assms absPath_nonempty [OF assms(1)] by (simp add: filepath_Join_def simpleName_def)
qed

lemma dropCommon_Nil: "dropCommon [] ms = ([], ms)"
  by (cases ms) simp_all

lemma dropCommon_prefix: "dropCommon ns (ns @ ms) = ([], ms)"
  by (induction ns) (simp_all add: dropCommon_Nil)

lemma elements_absPath:
  "\<forall>n \<in> set ns. simpleName n \<Longrightarrow> elements (absPath ns) = ns"
  using Split_absPath [of ns]
  by (simp add: elements_def simpleName_def filter_id_conv)

lemma Rel_absPath:
  assumes "ns \<noteq> []" "\<forall>n \<in> set ns. simpleName n" "ms \<noteq> []" "\<forall>n \<in> set ms. simpleName n"
  shows "filepath_Rel (absPath ns) (absPath (ns @ ms)) = Some (joinSlash ms)"
proof -
  have c1: "filepath_Clean (absPath ns) = absPath ns" using assms by (intro Clean_absPath)
  have c2: "filepath_Clean (absPath (ns @ ms)) = absPath (ns @ ms)"
    using assms by (intro Clean_absPath) auto
  have ne: "absPath (ns @ ms) \<noteq> absPath ns"
    using absPath_nonempty [OF assms(3)] by (simp add: absPath_append)
  have dot: "absPath ns \<noteq> ''.''" using absPath_nonempty [OF assms(1)] by auto
  have h1: "absPath ns \<noteq> [] \<and> hd (absPath ns) = CHR ''/''" using absPath_nonempty [OF assms(1)] .
  have h2: "absPath (ns @ ms) \<noteq> [] \<and> hd (absPath (ns @ ms)) = CHR ''/''"
    using absPath_nonempty [of "ns @ ms"] assms(1) by simp
  have e1: "elements (absPath ns) = ns" using assms by (intro elements_absPath)
  have e2: "elements (absPath (ns @ ms)) = ns @ ms" using assms by (intro elements_absPath) auto
  show ?thesis
    using ne dot h1 h2
    by (simp add: filepath_Rel_def c1 c2 e1 e2 dropCommon_prefix Let_def)
qed

lemma Dir_absPath:
  assumes "ns \<noteq> []" "\<forall>n \<in> set ns. simpleName n" "simpleName n"
  shows "filepath_Dir (absPath (ns @ [n])) = absPath ns"
proof -
  have "rev (absPath (ns @ [n])) = rev n @ CHR ''/'' # rev (absPath ns)"
    by (simp add: absPath_def)
  moreover have "dropWhile (\<lambda>c. c \<noteq> CHR ''/'') (rev n @ CHR ''/'' # rev (absPath ns))
                   = CHR ''/'' # rev (absPath ns)"
    using assms(3) by (auto simp: simpleName_def dropWhile_append)
  ultimately have "rev (dropWhile (\<lambda>c. c \<noteq> CHR ''/'') (rev (absPath (ns @ [n]))))
                     = absPath ns @ ''/''" by simp
  then show ?thesis using Clean_absPath_slash [OF assms(1,2)] by (simp add: filepath_Dir_def)
qed

lemma Base_absPath:
  assumes "simpleName n"
  shows "filepath_Base (absPath (ns @ [n])) = n"
proof -
  obtain c cs where n: "rev n = c # cs" and c: "c \<noteq> CHR ''/''"
    using assms by (cases "rev n") (auto simp: simpleName_def)
  have r: "rev (absPath (ns @ [n])) = rev n @ CHR ''/'' # rev (absPath ns)"
    by (simp add: absPath_def)
  have d: "dropWhile (\<lambda>c. c = CHR ''/'') (rev n @ CHR ''/'' # rev (absPath ns))
             = rev n @ CHR ''/'' # rev (absPath ns)"
    using n c by simp
  have t: "takeWhile (\<lambda>c. c \<noteq> CHR ''/'') (rev n @ CHR ''/'' # rev (absPath ns)) = rev n"
    using assms by (auto simp: simpleName_def takeWhile_append)
  have ne: "absPath (ns @ [n]) \<noteq> []" using absPath_nonempty [of "ns @ [n]"] by simp
  show ?thesis
    using assms ne by (simp add: filepath_Base_def r d t Let_def simpleName_def del: rev_append)
qed


lemma simple_names:
  "simpleName ''app1''" "simpleName ''app2''" "simpleName ''docker-compose.yml''"
  "simpleName ''compose.yaml''"
  by (simp_all add: simpleName_def)

text \<open>
  C7. For the tree that holds exactly \<^verbatim>\<open>app1/docker-compose.yml\<close> and \<^verbatim>\<open>app2/compose.yaml\<close>
  below the search directory, \<^verbatim>\<open>FindProjects\<close> returns exactly two projects, named \<^verbatim>\<open>app1\<close> and
  \<^verbatim>\<open>app2\<close>: for every absolute search directory \<^verbatim>\<open>/n1/.../nk\<close>, every maximal depth from 2 on
  (10 in the scenario), and whatever the compose commands answer, since \<^verbatim>\<open>UpdateStatus\<close> never
  returns an error.
\<close>

theorem FindProjects_two_projects:
  assumes ne: "ns \<noteq> []" and simple: "\<forall>n \<in> set ns. simpleName n" and depth: "2 \<le> maxDepth"
  shows "\<exists>ps. fst (FindProjects e (absPath ns) maxDepth (twoProjects rootName) log) = Inr ps \<and>
              map Name ps = [''app1'', ''app2'']"
proof -
  let ?sd = "absPath ns"
  define fn where "fn = findVisit e ?sd maxDepth"
  have s1: "\<forall>n \<in> set (ns @ [''app1'']). simpleName n"
    and s2: "\<forall>n \<in> set (ns @ [''app2'']). simpleName n"
    using simple simple_names by auto
  have j1: "filepath_Join ?sd ''app1'' = absPath (ns @ [''app1''])"
    and j2: "filepath_Join ?sd ''app2'' = absPath (ns @ [''app2''])"
    using Join_absPath [OF ne simple] simple_names by simp_all
  have j3: "filepath_Join (absPath (ns @ [''app1''])) ''docker-compose.yml''
              = absPath (ns @ [''app1'', ''docker-compose.yml''])"
    using Join_absPath [OF _ s1 simple_names(3)] by simp
  have j4: "filepath_Join (absPath (ns @ [''app2''])) ''compose.yaml''
              = absPath (ns @ [''app2'', ''compose.yaml''])"
    using Join_absPath [OF _ s2 simple_names(4)] by simp
  have r0: "filepath_Rel ?sd ?sd = Some ''.''" by (simp add: filepath_Rel_def)
  have r1: "filepath_Rel ?sd (absPath (ns @ [''app1''])) = Some ''app1''"
    using Rel_absPath [OF ne simple, of "[''app1'']"] simple_names by (simp add: joinSlash_def)
  have r2: "filepath_Rel ?sd (absPath (ns @ [''app2''])) = Some ''app2''"
    using Rel_absPath [OF ne simple, of "[''app2'']"] simple_names by (simp add: joinSlash_def)
  have r3: "filepath_Rel ?sd (absPath (ns @ [''app1'', ''docker-compose.yml'']))
              = Some ''app1/docker-compose.yml''"
    using Rel_absPath [OF ne simple, of "[''app1'', ''docker-compose.yml'']"] simple_names
    by (simp add: joinSlash_def)
  have r4: "filepath_Rel ?sd (absPath (ns @ [''app2'', ''compose.yaml'']))
              = Some ''app2/compose.yaml''"
    using Rel_absPath [OF ne simple, of "[''app2'', ''compose.yaml'']"] simple_names
    by (simp add: joinSlash_def)
  have b1: "filepath_Base (filepath_Dir (absPath (ns @ [''app1'', ''docker-compose.yml''])))
              = ''app1''"
    using Dir_absPath [OF _ s1 simple_names(3)] Base_absPath [OF simple_names(1), of ns] by simp
  have b2: "filepath_Base (filepath_Dir (absPath (ns @ [''app2'', ''compose.yaml''])))
              = ''app2''"
    using Dir_absPath [OF _ s2 simple_names(4)] Base_absPath [OF simple_names(2), of ns] by simp
  have d0: "fn ?sd (infoOf (Dir n kids)) False st = (None, st)" for n kids st
    unfolding fn_def using depth by (intro findVisit_dir [OF r0]) simp
  have d1: "fn (absPath (ns @ [''app1''])) (infoOf (Dir n kids)) False st = (None, st)" for n kids st
    unfolding fn_def using depth by (intro findVisit_dir [OF r1]) simp
  have d2: "fn (absPath (ns @ [''app2''])) (infoOf (Dir n kids)) False st = (None, st)" for n kids st
    unfolding fn_def using depth by (intro findVisit_dir [OF r2]) simp
  have "\<exists>p l. fn (absPath (ns @ [''app1'', ''docker-compose.yml'']))
                (infoOf (File ''docker-compose.yml'')) False ([], log) = (None, ([] @ [p], l))
              \<and> Name p = filepath_Base (filepath_Dir (absPath (ns @ [''app1'', ''docker-compose.yml''])))"
    unfolding fn_def using depth
    by (intro findVisit_project [OF r3]) (simp_all add: isProjectFile_def)
  then obtain p1 l1 where
    f1: "fn (absPath (ns @ [''app1'', ''docker-compose.yml''])) (infoOf (File ''docker-compose.yml''))
           False ([], log) = (None, ([p1], l1))"
    and n1: "Name p1 = ''app1''"
    using b1 by auto
  have "\<exists>p l. fn (absPath (ns @ [''app2'', ''compose.yaml'']))
                (infoOf (File ''compose.yaml'')) False ([p1], l1) = (None, ([p1] @ [p], l))
              \<and> Name p = filepath_Base (filepath_Dir (absPath (ns @ [''app2'', ''compose.yaml''])))"
    unfolding fn_def using depth
    by (intro findVisit_project [OF r4]) (simp_all add: isProjectFile_def)
  then obtain p2 l2 where
    f2: "fn (absPath (ns @ [''app2'', ''compose.yaml''])) (infoOf (File ''compose.yaml''))
           False ([p1], l1) = (None, ([p1, p2], l2))"
    and n2: "Name p2 = ''app2''"
    using b2 by auto
  have "walk fn ?sd (twoProjects rootName) ([], log) = (None, ([p1, p2], l2))"
    by (simp add: twoProjects_def d0 d1 d2 j1 j2 j3 j4 f1 f2)
  then show ?thesis
    using n1 n2 by (simp add: FindProjects_def filepath_Walk_def fn_def [symmetric])
qed

text \<open>The search directory \<^verbatim>\<open>/srv/stacks\<close> with the maximal depth 10.\<close>

theorem FindProjects_two_projects_witness:
  "[''srv'', ''stacks''] \<noteq> [] \<and> simpleName ''srv'' \<and> simpleName ''stacks'' \<and> (2::int) \<le> 10 \<and>
   absPath [''srv'', ''stacks''] = ''/srv/stacks'' \<and>
   (\<exists>ps. fst (FindProjects deadEnv ''/srv/stacks'' 10 (twoProjects ''stacks'') []) = Inr ps \<and>
         map Name ps = [''app1'', ''app2''])"
proof -
  have a: "[''srv'', ''stacks''] \<noteq> []" by simp
  have b: "simpleName ''srv''" "simpleName ''stacks''" by (simp_all add: simpleName_def)
  then have b': "\<forall>n \<in> set [''srv'', ''stacks'']. simpleName n" by simp
  have c: "(2::int) \<le> 10" by simp
  have d: "absPath [''srv'', ''stacks''] = ''/srv/stacks''" by (simp add: absPath_def)
  from FindProjects_two_projects [OF a b' c, of deadEnv "''stacks''" "[]"] d
  have "\<exists>ps. fst (FindProjects deadEnv ''/srv/stacks'' 10 (twoProjects ''stacks'') []) = Inr ps \<and>
         map Name ps = [''app1'', ''app2'']" by simp
  with a b c d show ?thesis by blast
qed

text \<open>
  C8. The search directory itself cannot be read (its \<^verbatim>\<open>Lstat\<close> fails): the walk function is
  handed the error and returns nil, so \<^verbatim>\<open>FindProjects\<close> reports that no project was found where
  the claim has it report a wrapped I/O error.
\<close>

theorem FindProjects_missing_root:
  "FindProjects e ''/srv/missing'' 10 (NoStat ''missing'') log
     = (Inl ''no docker-compose projects found in /srv/missing'', log)"
  by (simp add: FindProjects_def filepath_Walk_def findVisit_def)

text \<open>The branch of \<^verbatim>\<open>FindProjects\<close> that wraps an error of the walk is never taken.\<close>

lemma FindProjects_never_wrapped:
  "fst (FindProjects e sd md tree log) \<noteq> Inl (''failed to search for projects: '' @ m)"
proof -
  obtain r ps l where w: "walk (findVisit e sd md) sd tree ([], log) = (r, ps, l)"
    by (cases "walk (findVisit e sd md) sd tree ([], log)") auto
  have "r \<noteq> Some (WalkErr m')" for m'
    using walk_no_WalkErr(1) [where fn = "findVisit e sd md" and m = m' and path = sd
        and node = tree and st = "([], log)"] w findVisit_no_WalkErr [of e sd md]
    by (metis fst_conv)
  then show ?thesis
    using w by (auto simp: FindProjects_def filepath_Walk_def split: option.splits walkerr.splits)
qed

section \<open>Properties of the error cleaning\<close>

lemma HasPrefix_set: "strings_HasPrefix s p \<Longrightarrow> set p \<subseteq> set s"
  by (induction s p rule: strings_HasPrefix.induct) auto

lemma Contains_set: "strings_Contains s sub \<Longrightarrow> set sub \<subseteq> set s"
proof (induction s)
  case Nil
  then show ?case by simp
next
  case (Cons a s)
  show ?case
  proof (cases "strings_HasPrefix (a # s) sub")
    case True
    then show ?thesis by (rule HasPrefix_set)
  next
    case False
    with Cons show ?thesis by auto
  qed
qed

lemma Index_None: "strings_Index s sub = None \<longleftrightarrow> \<not> strings_Contains s sub"
  by (induction s) auto

lemma stripCommandEcho_surfaced: "stripCommandEcho x = surfaced x"
proof (cases "strings_Contains x ''Error'' \<or> strings_Contains x ''error''")
  case True
  then show ?thesis by (simp add: stripCommandEcho_def surfaced_def)
next
  case False
  then have "strings_Index x ''Error'' = None" "strings_Index x ''error'' = None"
    using Index_None by blast+
  with False show ?thesis by (simp add: stripCommandEcho_def surfaced_def)
qed

lemma skippedLine_model:
  "skippedLine line = (line = [] \<or> isProgressLine line \<or> isTracebackNoise line)"
  by (auto simp: skippedLine_def isProgressLine_def isTracebackNoise_def)

lemma exceptionLine_marked:
  assumes "strings_Contains line ''Error:'' \<or> strings_Contains line ''Exception:''"
  shows "exceptionLine line = Some (afterLastDot (beforeColon line) @ '': '' @ afterColon line)"
proof -
  have "CHR '':'' \<in> set line"
    using assms Contains_set [of line "''Error:''"] Contains_set [of line "''Exception:''"] by auto
  with assms show ?thesis
    by (simp add: exceptionLine_def strings_SplitN2_def Let_def afterLastDot_def beforeColon_def
        afterColon_def)
qed

lemma exceptionLine_unmarked:
  "\<not> (strings_Contains line ''Error:'' \<or> strings_Contains line ''Exception:'') \<Longrightarrow>
   exceptionLine line = None"
  by (simp add: exceptionLine_def)

lemma relevantLoop_stop:
  "\<not> list_ex stopsScan pre \<Longrightarrow> stopsScan l \<Longrightarrow>
   relevantLoop (pre @ l # post) relevantLines = [exceptionText l]"
proof (induction pre arbitrary: relevantLines)
  case Nil
  then show ?case
    using exceptionLine_marked [of "strings_TrimSpace l"]
    by (auto simp: stopsScan_def skippedLine_model exceptionText_def Let_def)
next
  case (Cons x xs)
  have rest: "relevantLoop (xs @ l # post) rel = [exceptionText l]" for rel
    using Cons by simp
  have x: "skippedLine (strings_TrimSpace x) \<or> exceptionLine (strings_TrimSpace x) = None"
    using Cons.prems(1) exceptionLine_unmarked [of "strings_TrimSpace x"]
    by (auto simp: stopsScan_def)
  then show ?case
    using rest by (auto simp: skippedLine_model Let_def)
qed

lemma cleanDockerError_stop:
  assumes "strings_Split (strings_TrimSpace output) (CHR 0x0A) = pre @ l # post"
    and "\<not> list_ex stopsScan pre" and "stopsScan l"
  shows "cleanDockerError operation output err
           = operation @ '' failed: '' @ surfaced (exceptionText l)"
  using assms(1) relevantLoop_stop [OF assms(2,3), of post "[]"]
  by (simp add: cleanDockerError_def stripCommandEcho_surfaced)

lemma keyErrorLine_exception:
  "keyErrorLine \<noteq> []"
  "stopsScan keyErrorLine"
  "surfaced (exceptionText keyErrorLine) = keyErrorLine"
  by code_simp+

lemma set_stripCommandEcho: "set (stripCommandEcho s) \<subseteq> set s"
  by (auto simp: stripCommandEcho_def split: option.splits dest: in_set_dropD)

lemma set_tl_dropWhile: "set (tl (dropWhile P s)) \<subseteq> set s"
  by (induction s) auto

lemma set_takeWhile_subset: "set (takeWhile P s) \<subseteq> set s"
  by (induction s) auto

lemma set_SplitN2:
  "strings_SplitN2 s c = [p0, p1] \<Longrightarrow> set p0 \<subseteq> set s \<and> set p1 \<subseteq> set s"
proof -
  assume "strings_SplitN2 s c = [p0, p1]"
  then have "p0 = takeWhile (\<lambda>x. x \<noteq> c) s" and "p1 = tl (dropWhile (\<lambda>x. x \<noteq> c) s)"
    by (simp_all add: strings_SplitN2_def split: if_splits)
  then show ?thesis
    using set_tl_dropWhile [of "\<lambda>x. x \<noteq> c" s] set_takeWhile_subset [of "\<lambda>x. x \<noteq> c" s]
    by simp
qed

lemma exceptionLine_no_newline:
  assumes "exceptionLine line = Some x" "CHR 0x0A \<notin> set line"
  shows "CHR 0x0A \<notin> set x"
proof -
  from assms(1) obtain p0 p1 where sp: "strings_SplitN2 line (CHR '':'') = [p0, p1]"
    and x: "x = (case strings_LastIndex (strings_TrimSpace p0) ''.'' of
                   Some idx \<Rightarrow> drop (idx + 1) (strings_TrimSpace p0)
                 | None \<Rightarrow> strings_TrimSpace p0) @ '': '' @ strings_TrimSpace p1"
    by (auto simp: exceptionLine_def Let_def split: if_splits list.splits)
  from set_SplitN2 [OF sp] assms(2) have "CHR 0x0A \<notin> set p0" "CHR 0x0A \<notin> set p1" by auto
  then have "CHR 0x0A \<notin> set (strings_TrimSpace p0)" "CHR 0x0A \<notin> set (strings_TrimSpace p1)"
    using set_TrimSpace by blast+
  note t = this
  have "CHR 0x0A \<notin> set (case strings_LastIndex (strings_TrimSpace p0) ''.'' of
                   Some idx \<Rightarrow> drop (idx + 1) (strings_TrimSpace p0)
                 | None \<Rightarrow> strings_TrimSpace p0)"
  proof (cases "strings_LastIndex (strings_TrimSpace p0) ''.''")
    case None
    with t show ?thesis by simp
  next
    case (Some idx)
    have "set (drop (idx + 1) (strings_TrimSpace p0)) \<subseteq> set (strings_TrimSpace p0)"
      by (rule set_drop_subset)
    with t Some show ?thesis by auto
  qed
  with t show ?thesis unfolding x by simp
qed

lemma relevantLoop_no_newline:
  "\<forall>l \<in> set ls. CHR 0x0A \<notin> set l \<Longrightarrow> \<forall>r \<in> set rel. CHR 0x0A \<notin> set r \<Longrightarrow>
   \<forall>r \<in> set (relevantLoop ls rel). CHR 0x0A \<notin> set r"
proof (induction ls arbitrary: rel)
  case Nil
  then show ?case by simp
next
  case (Cons l ls)
  have t: "CHR 0x0A \<notin> set (strings_TrimSpace l)"
    using Cons.prems(1) set_TrimSpace [of l] by auto
  have ls: "\<forall>l \<in> set ls. CHR 0x0A \<notin> set l" using Cons.prems(1) by simp
  have keep: "\<forall>r \<in> set (relevantLoop ls rel). CHR 0x0A \<notin> set r"
    using Cons.IH [OF ls Cons.prems(2)] .
  have "\<forall>r \<in> set (rel @ [strings_TrimSpace l]). CHR 0x0A \<notin> set r"
    using Cons.prems(2) t by simp
  then have add: "\<forall>r \<in> set (relevantLoop ls (rel @ [strings_TrimSpace l])). CHR 0x0A \<notin> set r"
    using Cons.IH [OF ls] by blast
  show ?case
  proof (cases "exceptionLine (strings_TrimSpace l)")
    case None
    with keep add show ?thesis by (simp add: Let_def)
  next
    case (Some x)
    with exceptionLine_no_newline [OF Some t] keep show ?thesis by (simp add: Let_def)
  qed
qed

lemma lastNonEmpty_snoc: "x \<noteq> [] \<Longrightarrow> lastNonEmpty (before @ [x]) = [x]"
  by (simp add: lastNonEmpty_def)

lemma set_lastNonEmpty: "set (lastNonEmpty ls) \<subseteq> set ls"
proof -
  have "set (filter (\<lambda>l. l \<noteq> []) (rev ls)) \<subseteq> set ls" by auto
  then show ?thesis
    by (cases "filter (\<lambda>l. l \<noteq> []) (rev ls)") (auto simp: lastNonEmpty_def)
qed

lemma cleanDockerError_one_line:
  assumes "lastNonEmpty (strings_Split (strings_TrimSpace output) (CHR 0x0A)) \<noteq> []"
  shows "\<exists>msg. cleanDockerError operation output err = operation @ '' failed: '' @ msg \<and>
               CHR 0x0A \<notin> set msg"
proof -
  define lines where "lines = strings_Split (strings_TrimSpace output) (CHR 0x0A)"
  define r1 where "r1 = relevantLoop lines []"
  define r2 where "r2 = (if length r1 = 0 then lastNonEmpty lines else r1)"
  define r3 where "r3 = (if length r2 > 1 then drop (length r2 - 1) r2 else r2)"
  have lines: "\<forall>l \<in> set lines. CHR 0x0A \<notin> set l"
    unfolding lines_def using strings_Split_no_sep by blast
  have r1: "\<forall>r \<in> set r1. CHR 0x0A \<notin> set r"
    unfolding r1_def using relevantLoop_no_newline [OF lines, of "[]"] by simp
  have r2: "\<forall>r \<in> set r2. CHR 0x0A \<notin> set r"
    unfolding r2_def using r1 lines set_lastNonEmpty [of lines] by auto
  have r2ne: "r2 \<noteq> []" unfolding r2_def using assms lines_def by auto
  have r3: "\<forall>r \<in> set r3. CHR 0x0A \<notin> set r"
    unfolding r3_def using r2 by (auto dest: in_set_dropD)
  have r3ne: "r3 \<noteq> []" unfolding r3_def using r2ne by (cases r2) auto
  then obtain m ms where m: "r3 = m # ms" by (cases r3) auto
  with r3 have "CHR 0x0A \<notin> set m" by simp
  then have nl: "CHR 0x0A \<notin> set (stripCommandEcho m)" using set_stripCommandEcho by blast
  have "cleanDockerError operation output err
          = (case r3 of errorMsg # _ \<Rightarrow> operation @ '' failed: '' @ stripCommandEcho errorMsg
             | [] \<Rightarrow> operation @ '' failed: '' @ err)"
    unfolding cleanDockerError_def Let_def r3_def r2_def r1_def lines_def ..
  then have "cleanDockerError operation output err = operation @ '' failed: '' @ stripCommandEcho m"
    by (simp add: m)
  with nl show ?thesis by blast
qed

text \<open>
  C6, as the code has it. When both pull commands fail and the last line of the output is
  \<^verbatim>\<open>KeyError: 'ContainerConfig'\<close>, the error of \<^verbatim>\<open>PullOnly\<close> is \<^verbatim>\<open>pull failed:\<close> followed by text
  without a line break. It is \<^verbatim>\<open>pull failed: KeyError: 'ContainerConfig'\<close> when the scan stops at no
  earlier line, that is when every earlier line is blank, progress output or traceback noise, or
  holds neither \<^verbatim>\<open>Error:\<close> nor \<^verbatim>\<open>Exception:\<close>. Otherwise the first line at which the scan stops is
  surfaced instead: the exception it names, cut to start at \<^verbatim>\<open>Error\<close> or \<^verbatim>\<open>error\<close> when it holds
  \<^verbatim>\<open>docker\<close>.
\<close>

theorem PullOnly_final_exception:
  assumes first: "res_err (exec e log (composeCmd [''pull''] (Path p) CombinedOutput)) \<noteq> None"
    and second: "res_err (exec e (log @ [composeCmd [''pull''] (Path p) CombinedOutput])
                            (legacyCmd [''pull''] (Path p) CombinedOutput)) = Some err"
    and printed: "res_out (exec e (log @ [composeCmd [''pull''] (Path p) CombinedOutput])
                            (legacyCmd [''pull''] (Path p) CombinedOutput)) = output"
    and lines: "strings_Split (strings_TrimSpace output) (CHR 0x0A) = before @ [keyErrorLine]"
  shows "(\<exists>msg. fst (PullOnly e p log) = Some (''pull failed: '' @ msg) \<and> CHR 0x0A \<notin> set msg) \<and>
         (\<not> list_ex stopsScan before \<longrightarrow>
            fst (PullOnly e p log) = Some (''pull failed: '' @ keyErrorLine)) \<and>
         (\<forall>pre l post. before = pre @ l # post \<and> \<not> list_ex stopsScan pre \<and> stopsScan l \<longrightarrow>
            fst (PullOnly e p log) = Some (''pull failed: '' @ surfaced (exceptionText l)))"
proof -
  have c: "fst (PullOnly e p log) = Some (cleanDockerError ''pull'' output err)"
    using first second printed by (simp add: PullOnly_def withFallback_def runcmd_def)
  have "lastNonEmpty (strings_Split (strings_TrimSpace output) (CHR 0x0A)) \<noteq> []"
    using lines lastNonEmpty_snoc [of keyErrorLine before] keyErrorLine_exception(1) by simp
  from cleanDockerError_one_line [OF this, of "''pull''" err] c
  have one: "\<exists>msg. fst (PullOnly e p log) = Some (''pull failed: '' @ msg) \<and> CHR 0x0A \<notin> set msg"
    by simp
  have final: "fst (PullOnly e p log) = Some (''pull failed: '' @ keyErrorLine)"
    if "\<not> list_ex stopsScan before"
    using c lines cleanDockerError_stop [of "output" before keyErrorLine "[]" "''pull''" err] that
      keyErrorLine_exception(2,3)
    by simp
  have earlier: "fst (PullOnly e p log) = Some (''pull failed: '' @ surfaced (exceptionText l))"
    if "before = pre @ l # post" "\<not> list_ex stopsScan pre" "stopsScan l" for pre l post
    using c lines that
      cleanDockerError_stop [of "output" pre l "post @ [keyErrorLine]" "''pull''" err]
    by simp
  from one final earlier show ?thesis by blast
qed

text \<open>
  A pull whose output is progress, one traceback and the final exception line; and a pull whose
  output holds the exception line of an earlier traceback.
\<close>

theorem PullOnly_final_exception_witness:
  "res_err (exec (constEnv (failResult tracebackOutput)) []
      (composeCmd [''pull''] (Path webProject) CombinedOutput)) \<noteq> None \<and>
   res_err (exec (constEnv (failResult tracebackOutput))
      [composeCmd [''pull''] (Path webProject) CombinedOutput]
      (legacyCmd [''pull''] (Path webProject) CombinedOutput)) = Some ''exit status 1'' \<and>
   res_out (exec (constEnv (failResult tracebackOutput))
      [composeCmd [''pull''] (Path webProject) CombinedOutput]
      (legacyCmd [''pull''] (Path webProject) CombinedOutput)) = tracebackOutput \<and>
   strings_Split (strings_TrimSpace tracebackOutput) (CHR 0x0A)
     = [''Pulling web ... done'', ''Traceback (most recent call last):'',
        frameLine ''compose/service.py'' ''line 330, in _get_container_create_options'',
        ''    container.image_config.get()''] @ [keyErrorLine] \<and>
   \<not> list_ex stopsScan
       [''Pulling web ... done'', ''Traceback (most recent call last):'',
        frameLine ''compose/service.py'' ''line 330, in _get_container_create_options'',
        ''    container.image_config.get()''] \<and>
   fst (PullOnly (constEnv (failResult tracebackOutput)) webProject [])
     = Some (''pull failed: '' @ keyErrorLine) \<and>
   res_err (exec (constEnv (failResult chainedTraceback)) []
      (composeCmd [''pull''] (Path webProject) CombinedOutput)) \<noteq> None \<and>
   res_err (exec (constEnv (failResult chainedTraceback))
      [composeCmd [''pull''] (Path webProject) CombinedOutput]
      (legacyCmd [''pull''] (Path webProject) CombinedOutput)) = Some ''exit status 1'' \<and>
   res_out (exec (constEnv (failResult chainedTraceback))
      [composeCmd [''pull''] (Path webProject) CombinedOutput]
      (legacyCmd [''pull''] (Path webProject) CombinedOutput)) = chainedTraceback \<and>
   strings_Split (strings_TrimSpace chainedTraceback) (CHR 0x0A)
     = ([''Traceback (most recent call last):'',
         frameLine ''docker/api/client.py'' ''line 268, in _raise_for_status''] @
        ''requests.exceptions.HTTPError: 404 Client Error: Not Found'' #
        [''Traceback (most recent call last):'',
         frameLine ''compose/service.py'' ''line 330, in _get_container_create_options'']) @
       [keyErrorLine] \<and>
   \<not> list_ex stopsScan
       [''Traceback (most recent call last):'',
        frameLine ''docker/api/client.py'' ''line 268, in _raise_for_status''] \<and>
   stopsScan ''requests.exceptions.HTTPError: 404 Client Error: Not Found'' \<and>
   surfaced (exceptionText ''requests.exceptions.HTTPError: 404 Client Error: Not Found'')
     = ''HTTPError: 404 Client Error: Not Found'' \<and>
   fst (PullOnly (constEnv (failResult chainedTraceback)) webProject [])
     = Some (''pull failed: HTTPError: 404 Client Error: Not Found'')"
proof -
  let ?e = "constEnv (failResult tracebackOutput)"
  let ?before = "[''Pulling web ... done'', ''Traceback (most recent call last):'',
        frameLine ''compose/service.py'' ''line 330, in _get_container_create_options'',
        ''    container.image_config.get()'']"
  let ?e2 = "constEnv (failResult chainedTraceback)"
  let ?pre = "[''Traceback (most recent call last):'',
        frameLine ''docker/api/client.py'' ''line 268, in _raise_for_status'']"
  let ?l = "''requests.exceptions.HTTPError: 404 Client Error: Not Found''"
  let ?post = "[''Traceback (most recent call last):'',
         frameLine ''compose/service.py'' ''line 330, in _get_container_create_options'']"
  have a: "res_err (exec ?e [] (composeCmd [''pull''] (Path webProject) CombinedOutput)) \<noteq> None"
    by (simp add: constEnv_def failResult_def)
  have b: "res_err (exec ?e ([] @ [composeCmd [''pull''] (Path webProject) CombinedOutput])
      (legacyCmd [''pull''] (Path webProject) CombinedOutput)) = Some ''exit status 1''"
    and o: "res_out (exec ?e ([] @ [composeCmd [''pull''] (Path webProject) CombinedOutput])
      (legacyCmd [''pull''] (Path webProject) CombinedOutput)) = tracebackOutput"
    by (simp_all add: constEnv_def failResult_def)
  have c: "strings_Split (strings_TrimSpace tracebackOutput) (CHR 0x0A) = ?before @ [keyErrorLine]"
    by code_simp
  have d: "\<not> list_ex stopsScan ?before" by code_simp
  from PullOnly_final_exception [OF a b o c] d
  have r: "fst (PullOnly ?e webProject []) = Some (''pull failed: '' @ keyErrorLine)" by blast
  have b': "res_err (exec ?e [composeCmd [''pull''] (Path webProject) CombinedOutput]
      (legacyCmd [''pull''] (Path webProject) CombinedOutput)) = Some ''exit status 1''"
    and o': "res_out (exec ?e [composeCmd [''pull''] (Path webProject) CombinedOutput]
      (legacyCmd [''pull''] (Path webProject) CombinedOutput)) = tracebackOutput"
    using b o by simp_all
  have a2: "res_err (exec ?e2 [] (composeCmd [''pull''] (Path webProject) CombinedOutput)) \<noteq> None"
    by (simp add: constEnv_def failResult_def)
  have b2: "res_err (exec ?e2 ([] @ [composeCmd [''pull''] (Path webProject) CombinedOutput])
      (legacyCmd [''pull''] (Path webProject) CombinedOutput)) = Some ''exit status 1''"
    and o2: "res_out (exec ?e2 ([] @ [composeCmd [''pull''] (Path webProject) CombinedOutput])
      (legacyCmd [''pull''] (Path webProject) CombinedOutput)) = chainedTraceback"
    by (simp_all add: constEnv_def failResult_def)
  have c2: "strings_Split (strings_TrimSpace chainedTraceback) (CHR 0x0A)
              = (?pre @ ?l # ?post) @ [keyErrorLine]"
    by code_simp
  have d2: "\<not> list_ex stopsScan ?pre" by code_simp
  have s2: "stopsScan ?l" by code_simp
  have x2: "surfaced (exceptionText ?l) = ''HTTPError: 404 Client Error: Not Found''" by code_simp
  from PullOnly_final_exception [OF a2 b2 o2 c2] d2 s2
  have "fst (PullOnly ?e2 webProject []) = Some (''pull failed: '' @ surfaced (exceptionText ?l))"
    by blast
  with x2 have r2: "fst (PullOnly ?e2 webProject [])
                      = Some (''pull failed: HTTPError: 404 Client Error: Not Found'')"
    by simp
  have b2': "res_err (exec ?e2 [composeCmd [''pull''] (Path webProject) CombinedOutput]
      (legacyCmd [''pull''] (Path webProject) CombinedOutput)) = Some ''exit status 1''"
    and o2': "res_out (exec ?e2 [composeCmd [''pull''] (Path webProject) CombinedOutput]
      (legacyCmd [''pull''] (Path webProject) CombinedOutput)) = chainedTraceback"
    using b2 o2 by simp_all
  show ?thesis
    by (intro conjI) (rule a b' o' c d r a2 b2' o2' c2 d2 s2 x2 r2)+
qed

text \<open>
  C6, as the claim states it, fails: the output ends in \<^verbatim>\<open>KeyError: 'ContainerConfig'\<close>, but the
  scan stops at the exception line of the first traceback.
\<close>

theorem PullOnly_chained_traceback:
  "last (strings_Split (strings_TrimSpace chainedTraceback) (CHR 0x0A)) = keyErrorLine \<and>
   fst (PullOnly (constEnv (failResult chainedTraceback)) webProject [])
     = Some ''pull failed: HTTPError: 404 Client Error: Not Found''"
  by code_simp

section \<open>Properties of the aggregate update flag\<close>













section \<open>Properties of the cache store\<close>













lemma example_unmarshal: "json_Unmarshal exampleCodec ''web.json'' = Inr exampleProjects"
  by (simp add: json_Unmarshal_def exampleCodec_def exampleValue_def exampleProjects_def
      setProjectField_def fieldNamed_def projectTags_def zeroProject_def zeroTime_def
      setEntry_def setImageInfoField_def imageInfoTags_def zeroImageInfo_def fun_eq_iff)






text \<open>
  C4, as the claim states it, fails at the threshold: a cache file whose age is exactly
  \<^verbatim>\<open>maxAge\<close> is loaded, not rejected.
\<close>

theorem LoadFromCache_at_threshold:
  "time_Since oneHour (file_modTime (the (files cachedDisk ''cache.json''))) = oneHour \<and>
   LoadFromCache exampleCodec cachedDisk oneHour ''cache.json'' oneHour = Inr exampleProjects"
  by (simp add: LoadFromCache_def cachedDisk_def example_unmarshal os_ReadFile_def time_Since_def
      time_Sub_def oneHour_def maxDuration_def minDuration_def)

text \<open>
  C4, as the code has it. \<^verbatim>\<open>LoadFromCache\<close> fails on a missing file, on a file that cannot be
  read and on content that does not decode; and it answers \<^verbatim>\<open>cache expired\<close> exactly when the age
  of the file is greater than \<^verbatim>\<open>maxAge\<close>, so a file whose age equals \<^verbatim>\<open>maxAge\<close> is not expired.
\<close>

theorem LoadFromCache_fails_closed:
  "(files fs cacheFile = None \<longrightarrow>
      LoadFromCache cd fs now cacheFile maxAge = Inl ''cache file not found'') \<and>
   (\<forall>f. files fs cacheFile = Some f \<longrightarrow>
      ((LoadFromCache cd fs now cacheFile maxAge = Inl ''cache expired'')
         = (maxAge < time_Since now (file_modTime f))) \<and>
      (\<not> file_readable f \<or> isl (json_Unmarshal cd (file_data f)) \<longrightarrow>
         isl (LoadFromCache cd fs now cacheFile maxAge)))"
  by (auto simp: LoadFromCache_def os_ReadFile_def split: sum.splits)

text \<open>No cache file; the cache file at the threshold; the cache file one nanosecond older.\<close>

theorem LoadFromCache_fails_closed_witness:
  "files emptyDisk ''cache.json'' = None \<and>
   LoadFromCache exampleCodec emptyDisk 0 ''cache.json'' oneHour = Inl ''cache file not found'' \<and>
   files cachedDisk ''cache.json''
     = Some \<lparr>file_data = ''web.json'', file_modTime = 0, file_readable = True\<rparr> \<and>
   LoadFromCache exampleCodec cachedDisk oneHour ''cache.json'' oneHour \<noteq> Inl ''cache expired'' \<and>
   oneHour < time_Since (oneHour + 1) 0 \<and>
   LoadFromCache exampleCodec cachedDisk (oneHour + 1) ''cache.json'' oneHour = Inl ''cache expired''"
proof -
  have a: "files emptyDisk ''cache.json'' = None" by (simp add: emptyDisk_def)
  have b: "files cachedDisk ''cache.json''
     = Some \<lparr>file_data = ''web.json'', file_modTime = 0, file_readable = True\<rparr>"
    by (simp add: cachedDisk_def)
  have t0: "\<not> oneHour < time_Since oneHour 0"
    by (simp add: time_Since_def time_Sub_def oneHour_def maxDuration_def minDuration_def)
  have t1: "oneHour < time_Since (oneHour + 1) 0"
    by (simp add: time_Since_def time_Sub_def oneHour_def maxDuration_def minDuration_def)
  from LoadFromCache_fails_closed [of emptyDisk "''cache.json''" exampleCodec 0 oneHour] a
  have 1: "LoadFromCache exampleCodec emptyDisk 0 ''cache.json'' oneHour = Inl ''cache file not found''"
    by simp
  from LoadFromCache_fails_closed [of cachedDisk "''cache.json''" exampleCodec oneHour oneHour] b t0
  have 2: "LoadFromCache exampleCodec cachedDisk oneHour ''cache.json'' oneHour \<noteq> Inl ''cache expired''"
    by simp
  from LoadFromCache_fails_closed [of cachedDisk "''cache.json''" exampleCodec "oneHour + 1" oneHour] b t1
  have 3: "LoadFromCache exampleCodec cachedDisk (oneHour + 1) ''cache.json'' oneHour = Inl ''cache expired''"
    by simp
  from a b 1 2 3 t1 show ?thesis by simp
qed

section \<open>Properties of the parallel update choreography\<close>

















end
